theory Spec2Isabelle
  imports Main "HOL-Library.Word" "HOL-Library.Multiset" "HOL-Library.Code_Target_Numeral"
begin

unbundle bit_operations_syntax

section \<open>JavaScript strings\<close>

text \<open>
  A JavaScript string is a sequence of 16-bit code units. Every string the server
  handles (ids, labels, file names, the JSON text of the categories) is modelled as a
  list of such units; \<open>js\<close> writes an ASCII literal of the source as one.
\<close>

type_synonym jschar = "16 word"
type_synonym jsstring = "jschar list"

definition js :: "string \<Rightarrow> jsstring" where
  "js s = map of_char s"

text \<open>\<open>String.prototype.startsWith\<close>, as used on MIME types and on \<open>src\<close>.\<close>

definition startsWith :: "jsstring \<Rightarrow> jsstring \<Rightarrow> bool" where
  "startsWith s prefix = (take (length prefix) s = prefix)"

text \<open>
  The decimal text of a non-negative integer, as a template literal writes the
  number \<open>Date.now()\<close> returns.
\<close>

function decimal :: "nat \<Rightarrow> jsstring" where
  "decimal n = (if n < 10 then [0x30 + of_nat n] else decimal (n div 10) @ [0x30 + of_nat (n mod 10)])"
  by pat_completeness auto
termination
  by (relation "measure (\<lambda>n. n)") auto

declare decimal.simps [simp del]

section \<open>Objects: own properties and the properties every object inherits\<close>

text \<open>
  An ordinary object is modelled by the list of its own properties in the order of
  their creation. \<open>CreateDataProperty\<close> overwrites the value of a key that exists and
  keeps its place, and appends a new key. Enumeration (\<open>Object.values\<close>,
  \<open>JSON.stringify\<close>) lists the keys that are array indices first, in ascending
  numeric order, then the other keys in creation order. An array index is the
  canonical decimal text of an integer from 0 to 2^32 - 2.
\<close>

definition is_digit :: "jschar \<Rightarrow> bool" where
  "is_digit c = (0x30 \<le> c \<and> c \<le> 0x39)"

definition array_index :: "jsstring \<Rightarrow> nat" where
  "array_index k = foldl (\<lambda>n c. 10 * n + unat (c - 0x30)) 0 k"

definition is_array_index :: "jsstring \<Rightarrow> bool" where
  "is_array_index k =
     (k \<noteq> [] \<and> list_all is_digit k \<and> (hd k \<noteq> 0x30 \<or> length k = 1)
      \<and> array_index k < 2 ^ 32 - 1)"

fun CreateDataProperty :: "(jsstring \<times> 'a) list \<Rightarrow> jsstring \<Rightarrow> 'a \<Rightarrow> (jsstring \<times> 'a) list" where
  "CreateDataProperty [] k v = [(k, v)]"
| "CreateDataProperty ((k', v') # props) k v =
     (if k' = k then (k, v) # props else (k', v') # CreateDataProperty props k v)"

definition OwnPropertyKeysOrder :: "(jsstring \<times> 'a) list \<Rightarrow> (jsstring \<times> 'a) list" where
  "OwnPropertyKeysOrder props =
     sort_key (\<lambda>(k, v). array_index k) (filter (\<lambda>(k, v). is_array_index k) props)
     @ filter (\<lambda>(k, v). \<not> is_array_index k) props"

definition Object_values :: "(jsstring \<times> 'a) list \<Rightarrow> 'a list" where
  "Object_values props = map snd (OwnPropertyKeysOrder props)"

text \<open>
  An object literal \<open>{}\<close> inherits from \<open>Object.prototype\<close>. Reading a key that is
  not an own property gives the inherited value when the key names one of the
  properties of \<open>Object.prototype\<close> (each of them a function or an object, so
  truthy), and \<open>undefined\<close> otherwise.
\<close>

definition Object_prototype_keys :: "jsstring list" where
  "Object_prototype_keys =
     [js ''constructor'', js ''__defineGetter__'', js ''__defineSetter__'',
      js ''hasOwnProperty'', js ''__lookupGetter__'', js ''__lookupSetter__'',
      js ''isPrototypeOf'', js ''propertyIsEnumerable'', js ''toString'',
      js ''valueOf'', js ''__proto__'', js ''toLocaleString'']"

datatype 'a property = Own 'a | Inherited | Undefined

definition Get :: "(jsstring \<times> 'a) list \<Rightarrow> jsstring \<Rightarrow> 'a property" where
  "Get props k =
     (case map_of props k of
        Some v \<Rightarrow> Own v
      | None \<Rightarrow> if k \<in> set Object_prototype_keys then Inherited else Undefined)"

section \<open>JSON\<close>

text \<open>
  The values \<open>JSON.parse\<close> returns. A number is kept as the lexeme it was read from:
  the double it denotes is not computed, so two lexemes of one number are different
  values here. No statement below compares numbers.
\<close>

datatype json =
    JNull
  | JBool bool
  | JNumber jsstring
  | JString jsstring
  | JArray "json list"
  | JObject "(jsstring \<times> json) list"

subsection \<open>\<open>JSON.stringify\<close>\<close>

text \<open>
  \<open>QuoteJSONString\<close> of ECMAScript: the two-character escapes for backspace, tab,
  line feed, form feed, carriage return, the quote and the backslash; \<open>\uXXXX\<close> with
  lowercase hexadecimal digits for the other code units below space and for a
  surrogate that is not half of a pair; every other code unit, and both halves of a
  surrogate pair, as they are.
\<close>

definition is_leading_surrogate :: "jschar \<Rightarrow> bool" where
  "is_leading_surrogate c = (0xD800 \<le> c \<and> c \<le> 0xDBFF)"

definition is_trailing_surrogate :: "jschar \<Rightarrow> bool" where
  "is_trailing_surrogate c = (0xDC00 \<le> c \<and> c \<le> 0xDFFF)"

definition hex_digit :: "jschar \<Rightarrow> jschar" where
  "hex_digit n = (if n < 10 then 0x30 + n else 0x61 + (n - 10))"

definition UnicodeEscape :: "jschar \<Rightarrow> jsstring" where
  "UnicodeEscape c =
     [0x5C, 0x75, hex_digit (drop_bit 12 c AND 15), hex_digit (drop_bit 8 c AND 15),
      hex_digit (drop_bit 4 c AND 15), hex_digit (c AND 15)]"

definition quote_unit :: "jschar \<Rightarrow> jsstring" where
  "quote_unit c =
     (if c = 0x08 then [0x5C, 0x62]
      else if c = 0x09 then [0x5C, 0x74]
      else if c = 0x0A then [0x5C, 0x6E]
      else if c = 0x0C then [0x5C, 0x66]
      else if c = 0x0D then [0x5C, 0x72]
      else if c = 0x22 then [0x5C, 0x22]
      else if c = 0x5C then [0x5C, 0x5C]
      else if c < 0x20 \<or> is_leading_surrogate c \<or> is_trailing_surrogate c then UnicodeEscape c
      else [c])"

fun quote_units :: "jsstring \<Rightarrow> jsstring" where
  "quote_units [] = []"
| "quote_units [c] = quote_unit c"
| "quote_units (c # d # cs) =
     (if is_leading_surrogate c \<and> is_trailing_surrogate d then c # d # quote_units cs
      else quote_unit c @ quote_units (d # cs))"

definition QuoteJSONString :: "jsstring \<Rightarrow> jsstring" where
  "QuoteJSONString s = [0x22] @ quote_units s @ [0x22]"

fun join_comma :: "jsstring list \<Rightarrow> jsstring" where
  "join_comma [] = []"
| "join_comma [s] = s"
| "join_comma (s # t # ss) = s @ [0x2C] @ join_comma (t # ss)"

lemma set_OwnPropertyKeysOrder: "set (OwnPropertyKeysOrder props) = set props"
  by (auto simp: OwnPropertyKeysOrder_def)

lemma size_member_less:
  "(k, v) \<in> set props \<Longrightarrow> size v < Suc (size_list (size_prod (\<lambda>x. 0) size) props)"
  by (induction props) auto

lemma size_element_less: "v \<in> set vs \<Longrightarrow> size v < Suc (size_list size vs)"
  by (induction vs) auto

text \<open>
  \<open>JSON.stringify\<close> with one argument, on a value \<open>JSON.parse\<close> can return (or an
  array of strings of the program): no gap, no indentation. The text of a number is
  the parameter \<open>number_text\<close>, from the lexeme to what \<open>Number::toString\<close> writes for
  the double nearest to it (\<open>null\<close> when that is not finite), which is floating-point
  arithmetic and stays outside this theory.
\<close>

function (sequential) JSON_stringify :: "(jsstring \<Rightarrow> jsstring) \<Rightarrow> json \<Rightarrow> jsstring" where
  "JSON_stringify number_text JNull = js ''null''"
| "JSON_stringify number_text (JBool b) = (if b then js ''true'' else js ''false'')"
| "JSON_stringify number_text (JNumber lexeme) = number_text lexeme"
| "JSON_stringify number_text (JString s) = QuoteJSONString s"
| "JSON_stringify number_text (JArray vs) =
     [0x5B] @ join_comma (map (JSON_stringify number_text) vs) @ [0x5D]"
| "JSON_stringify number_text (JObject props) =
     [0x7B]
     @ join_comma (map (\<lambda>(k, v). QuoteJSONString k @ [0x3A] @ JSON_stringify number_text v)
                     (OwnPropertyKeysOrder props))
     @ [0x7D]"
  by pat_completeness auto
termination
  by (relation "measure (\<lambda>(number_text, v). size v)")
     (auto simp: set_OwnPropertyKeysOrder size_member_less size_element_less)

subsection \<open>\<open>JSON.parse\<close>\<close>

text \<open>
  The JSON grammar of ECMAScript, read by recursive descent. Each function takes the
  text that is left and returns what it read with the rest, or \<open>None\<close> where
  \<open>JSON.parse\<close> throws a SyntaxError.
\<close>

definition is_ws :: "jschar \<Rightarrow> bool" where
  "is_ws c = (c = 0x09 \<or> c = 0x0A \<or> c = 0x0D \<or> c = 0x20)"

definition skip_ws :: "jsstring \<Rightarrow> jsstring" where
  "skip_ws cs = dropWhile is_ws cs"

definition hex_value :: "jschar \<Rightarrow> jschar option" where
  "hex_value c =
     (if 0x30 \<le> c \<and> c \<le> 0x39 then Some (c - 0x30)
      else if 0x61 \<le> c \<and> c \<le> 0x66 then Some (c - 0x61 + 10)
      else if 0x41 \<le> c \<and> c \<le> 0x46 then Some (c - 0x41 + 10)
      else None)"

definition hex4 :: "jschar \<Rightarrow> jschar \<Rightarrow> jschar \<Rightarrow> jschar \<Rightarrow> jschar option" where
  "hex4 a b c d =
     (case (hex_value a, hex_value b, hex_value c, hex_value d) of
        (Some h3, Some h2, Some h1, Some h0) \<Rightarrow>
          Some (push_bit 12 h3 OR push_bit 8 h2 OR push_bit 4 h1 OR h0)
      | _ \<Rightarrow> None)"

definition single_escape :: "jschar \<Rightarrow> jschar option" where
  "single_escape e =
     (if e = 0x22 then Some 0x22
      else if e = 0x2F then Some 0x2F
      else if e = 0x5C then Some 0x5C
      else if e = 0x62 then Some 0x08
      else if e = 0x66 then Some 0x0C
      else if e = 0x6E then Some 0x0A
      else if e = 0x72 then Some 0x0D
      else if e = 0x74 then Some 0x09
      else None)"

definition cons_unit :: "jschar \<Rightarrow> (jsstring \<times> jsstring) option \<Rightarrow> (jsstring \<times> jsstring) option" where
  "cons_unit c r = (case r of None \<Rightarrow> None | Some (s, rest) \<Rightarrow> Some (c # s, rest))"

text \<open>The characters of a string after its opening quote, up to the closing one.\<close>

fun string_chars :: "jsstring \<Rightarrow> (jsstring \<times> jsstring) option" where
  "string_chars [] = None"
| "string_chars (c # cs) =
     (if c = 0x22 then Some ([], cs)
      else if c = 0x5C then
        (case cs of
           [] \<Rightarrow> None
         | e # cs' \<Rightarrow>
             if e = 0x75 then
               (case cs' of
                  h3 # h2 # h1 # h0 # cs'' \<Rightarrow>
                    (case hex4 h3 h2 h1 h0 of
                       None \<Rightarrow> None
                     | Some u \<Rightarrow> cons_unit u (string_chars cs''))
                | _ \<Rightarrow> None)
             else
               (case single_escape e of
                  None \<Rightarrow> None
                | Some u \<Rightarrow> cons_unit u (string_chars cs')))
      else if c < 0x20 then None
      else cons_unit c (string_chars cs))"

text \<open>
  A number: an optional minus, \<open>0\<close> or a digit sequence that does not start with
  \<open>0\<close>, an optional fraction, an optional exponent. The result is the lexeme.
\<close>

definition digits :: "jsstring \<Rightarrow> (jsstring \<times> jsstring) option" where
  "digits cs =
     (if takeWhile is_digit cs = [] then None
      else Some (takeWhile is_digit cs, dropWhile is_digit cs))"

definition number_int :: "jsstring \<Rightarrow> (jsstring \<times> jsstring) option" where
  "number_int cs =
     (case cs of
        [] \<Rightarrow> None
      | d # r \<Rightarrow> if d = 0x30 then Some ([d], r) else digits cs)"

definition number_frac :: "jsstring \<Rightarrow> (jsstring \<times> jsstring) option" where
  "number_frac cs =
     (case cs of
        [] \<Rightarrow> Some ([], cs)
      | d # r \<Rightarrow>
          if d = 0x2E then
            (case digits r of None \<Rightarrow> None | Some (ds, r') \<Rightarrow> Some (d # ds, r'))
          else Some ([], cs))"

definition number_exp :: "jsstring \<Rightarrow> (jsstring \<times> jsstring) option" where
  "number_exp cs =
     (case cs of
        [] \<Rightarrow> Some ([], cs)
      | e # r \<Rightarrow>
          if e = 0x65 \<or> e = 0x45 then
            (case r of
               [] \<Rightarrow> None
             | s # r' \<Rightarrow>
                 if s = 0x2B \<or> s = 0x2D then
                   (case digits r' of None \<Rightarrow> None | Some (ds, r'') \<Rightarrow> Some (e # s # ds, r''))
                 else
                   (case digits r of None \<Rightarrow> None | Some (ds, r'') \<Rightarrow> Some (e # ds, r'')))
          else Some ([], cs))"

definition number_unsigned :: "jsstring \<Rightarrow> (jsstring \<times> jsstring) option" where
  "number_unsigned cs =
     (case number_int cs of
        None \<Rightarrow> None
      | Some (i, r1) \<Rightarrow>
          (case number_frac r1 of
             None \<Rightarrow> None
           | Some (f, r2) \<Rightarrow>
               (case number_exp r2 of
                  None \<Rightarrow> None
                | Some (e, r3) \<Rightarrow> Some (i @ f @ e, r3))))"

definition number :: "jsstring \<Rightarrow> (jsstring \<times> jsstring) option" where
  "number cs =
     (case cs of
        [] \<Rightarrow> None
      | c # r \<Rightarrow>
          if c = 0x2D then
            (case number_unsigned r of None \<Rightarrow> None | Some (l, r') \<Rightarrow> Some (c # l, r'))
          else number_unsigned cs)"

definition literal :: "jsstring \<Rightarrow> json \<Rightarrow> jsstring \<Rightarrow> (json \<times> jsstring) option" where
  "literal word v cs =
     (if take (length word) cs = word then Some (v, drop (length word) cs) else None)"

text \<open>The object a member list builds: a repeated key keeps its first place and its last value.\<close>

definition members_object :: "(jsstring \<times> json) list \<Rightarrow> (jsstring \<times> json) list" where
  "members_object ms = foldl (\<lambda>props (k, v). CreateDataProperty props k v) [] ms"

text \<open>
  A value, the elements of an array after its bracket, and the members of an object
  after its brace. The tests \<open>length r < length cs\<close> on what \<open>json_value\<close> left always
  succeed (\<open>json_value_consumes\<close>, \<open>json_elements_unguarded\<close> and
  \<open>json_members_unguarded\<close> below); they are what makes the recursion well-founded.
\<close>

function json_value :: "jsstring \<Rightarrow> (json \<times> jsstring) option"
  and json_elements :: "jsstring \<Rightarrow> (json list \<times> jsstring) option"
  and json_members :: "jsstring \<Rightarrow> ((jsstring \<times> json) list \<times> jsstring) option"
where
  "json_value cs =
     (case skip_ws cs of
        [] \<Rightarrow> None
      | c # r \<Rightarrow>
          if c = 0x22 then
            (case string_chars r of None \<Rightarrow> None | Some (s, r') \<Rightarrow> Some (JString s, r'))
          else if c = 0x5B then
            (case skip_ws r of
               [] \<Rightarrow> None
             | c' # r' \<Rightarrow>
                 if c' = 0x5D then Some (JArray [], r')
                 else (case json_elements r of
                         None \<Rightarrow> None
                       | Some (vs, r'') \<Rightarrow> Some (JArray vs, r'')))
          else if c = 0x7B then
            (case skip_ws r of
               [] \<Rightarrow> None
             | c' # r' \<Rightarrow>
                 if c' = 0x7D then Some (JObject [], r')
                 else (case json_members r of
                         None \<Rightarrow> None
                       | Some (ms, r'') \<Rightarrow> Some (JObject (members_object ms), r'')))
          else if c = 0x6E then literal (js ''null'') JNull (c # r)
          else if c = 0x74 then literal (js ''true'') (JBool True) (c # r)
          else if c = 0x66 then literal (js ''false'') (JBool False) (c # r)
          else (case number (c # r) of None \<Rightarrow> None | Some (l, r') \<Rightarrow> Some (JNumber l, r')))"
| "json_elements cs =
     (case json_value cs of
        None \<Rightarrow> None
      | Some (v, r) \<Rightarrow>
          if length r < length cs then
            (case skip_ws r of
               [] \<Rightarrow> None
             | c # r' \<Rightarrow>
                 if c = 0x5D then Some ([v], r')
                 else if c = 0x2C then
                   (case json_elements r' of
                      None \<Rightarrow> None
                    | Some (vs, r'') \<Rightarrow> Some (v # vs, r''))
                 else None)
          else None)"
| "json_members cs =
     (case skip_ws cs of
        [] \<Rightarrow> None
      | q # r \<Rightarrow>
          if q = 0x22 then
            (case string_chars r of
               None \<Rightarrow> None
             | Some (k, r1) \<Rightarrow>
                 (case skip_ws r1 of
                    [] \<Rightarrow> None
                  | colon # r2 \<Rightarrow>
                      if colon = 0x3A then
                        (case json_value r2 of
                           None \<Rightarrow> None
                         | Some (v, r3) \<Rightarrow>
                             if length r3 < length r2 then
                               (case skip_ws r3 of
                                  [] \<Rightarrow> None
                                | c # r4 \<Rightarrow>
                                    if c = 0x7D then Some ([(k, v)], r4)
                                    else if c = 0x2C then
                                      (case json_members r4 of
                                         None \<Rightarrow> None
                                       | Some (ms, r5) \<Rightarrow> Some ((k, v) # ms, r5))
                                    else None)
                             else None)
                      else None))
          else None)"
  by pat_completeness auto

lemma length_skip_ws: "length (skip_ws cs) \<le> length cs"
  by (simp add: skip_ws_def length_dropWhile_le)

lemma skip_ws_Cons_length: "skip_ws cs = c # r \<Longrightarrow> length r < length cs"
  using length_skip_ws [of cs] by simp

lemma cons_unit_Some:
  "cons_unit c x = Some (s, r) \<longleftrightarrow> (\<exists>s'. x = Some (s', r) \<and> s = c # s')"
  by (auto simp: cons_unit_def split: option.splits)

lemma string_chars_length: "string_chars cs = Some (s, r) \<Longrightarrow> length r < length cs"
proof (induction cs arbitrary: s r rule: string_chars.induct)
  case 1
  then show ?case by simp
next
  case (2 c cs)
  then show ?case
    by (fastforce simp: cons_unit_Some split: if_splits list.splits option.splits)
qed

termination json_value
  apply (relation
      "measures [\<lambda>x. case x of Inl cs \<Rightarrow> length cs | Inr (Inl cs) \<Rightarrow> length cs | Inr (Inr cs) \<Rightarrow> length cs,
                 \<lambda>x. case x of Inl cs \<Rightarrow> 0 | Inr (Inl cs) \<Rightarrow> 1 | Inr (Inr cs) \<Rightarrow> 1]")
       apply (auto dest!: skip_ws_Cons_length string_chars_length)
  done

declare json_value.simps [simp del] json_elements.simps [simp del] json_members.simps [simp del]

text \<open>\<open>JSON.parse(text)\<close>: one value, with nothing but white space after it.\<close>

definition JSON_parse :: "jsstring \<Rightarrow> json option" where
  "JSON_parse text =
     (case json_value text of
        None \<Rightarrow> None
      | Some (v, r) \<Rightarrow> if skip_ws r = [] then Some v else None)"

section \<open>The table \<open>gallery_items\<close>\<close>

text \<open>
  \<open>db.js\<close>, lines 30 to 41. A row has the columns of the \<open>CREATE TABLE\<close> statement.
  The columns declared \<open>NOT NULL\<close> and the primary key hold a string; \<open>alt\<close>, \<open>poster\<close>
  and \<open>categories\<close> may be \<open>NULL\<close>. Every statement of the program binds an integer to
  \<open>isFavorite\<close>, so the column is an integer here. The table is the list of its rows in
  the order \<open>SELECT *\<close> returns them, which is the order of insertion.
\<close>

record row =
  row_id :: jsstring
  row_type :: jsstring
  row_src :: jsstring
  row_alt :: "jsstring option"
  row_poster :: "jsstring option"
  row_isFavorite :: int
  row_dateGroup :: jsstring
  row_categories :: "jsstring option"

type_synonym store = "row list"

datatype js_error =
    SQLITE_CONSTRAINT_NOTNULL
  | SQLITE_CONSTRAINT_PRIMARYKEY
  | SyntaxError
  | TypeError

text \<open>
  The \<open>INSERT\<close> statement of \<open>db.js\<close> line 76 and \<open>app.js\<close> line 127, run with its eight
  parameters. The driver binds \<open>undefined\<close> and \<open>null\<close> as \<open>NULL\<close>; of the parameters
  the program passes only \<open>dateGroup\<close> (a form field) can be absent where the column
  is \<open>NOT NULL\<close>. A row whose id is in the table already violates the primary key.
\<close>

definition db_insert ::
  "jsstring \<Rightarrow> jsstring \<Rightarrow> jsstring \<Rightarrow> jsstring option \<Rightarrow> jsstring option \<Rightarrow> int
     \<Rightarrow> jsstring option \<Rightarrow> jsstring \<Rightarrow> store \<Rightarrow> js_error + store" where
  "db_insert itemId itemType itemSrc itemAlt itemPoster fav itemDateGroup itemCategories table =
     (case itemDateGroup of
        None \<Rightarrow> Inl SQLITE_CONSTRAINT_NOTNULL
      | Some dg \<Rightarrow>
          if itemId \<in> set (map row_id table) then Inl SQLITE_CONSTRAINT_PRIMARYKEY
          else Inr (table @
                 [\<lparr>row_id = itemId, row_type = itemType, row_src = itemSrc, row_alt = itemAlt,
                   row_poster = itemPoster, row_isFavorite = fav, row_dateGroup = dg,
                   row_categories = Some itemCategories\<rparr>]))"

text \<open>\<open>db.get('SELECT ... FROM gallery_items WHERE id = ?', itemId)\<close>: the first matching row, or \<open>undefined\<close>.\<close>

definition db_get :: "store \<Rightarrow> jsstring \<Rightarrow> row option" where
  "db_get table itemId = find (\<lambda>r. row_id r = itemId) table"

text \<open>\<open>UPDATE gallery_items SET isFavorite = ? WHERE id = ?\<close>\<close>

definition db_update_isFavorite :: "int \<Rightarrow> jsstring \<Rightarrow> store \<Rightarrow> store" where
  "db_update_isFavorite fav itemId table =
     map (\<lambda>r. if row_id r = itemId then r\<lparr>row_isFavorite := fav\<rparr> else r) table"

text \<open>\<open>DELETE FROM gallery_items WHERE id = ?\<close>: the number of rows removed (\<open>result.changes\<close>) and the table left.\<close>

definition db_delete :: "jsstring \<Rightarrow> store \<Rightarrow> nat \<times> store" where
  "db_delete itemId table =
     (length (filter (\<lambda>r. row_id r = itemId) table), filter (\<lambda>r. row_id r \<noteq> itemId) table)"

text \<open>The primary key: no two rows of a table share an id.\<close>

definition primary_key :: "store \<Rightarrow> bool" where
  "primary_key table = distinct (map row_id table)"

section \<open>\<open>initializeDatabase\<close>\<close>

text \<open>
  \<open>db.js\<close>, lines 18 to 100. The list \<open>initialMockGalleryItems\<close> of lines 52 to 73,
  item by item and field by field; an item written without \<open>poster\<close> has none.
\<close>

record mock_item =
  mock_id :: jsstring
  mock_type :: jsstring
  mock_src :: jsstring
  mock_poster :: "jsstring option"
  mock_alt :: jsstring
  mock_categories :: "jsstring list"
  mock_isFavorite :: int
  mock_dateGroup :: jsstring

definition initialMockGalleryItems :: "mock_item list" where
  "initialMockGalleryItems =
    [\<lparr>mock_id = js ''img-001'', mock_type = js ''image'',
      mock_src = js ''/source/Pics/identity_veeshna_01.jpg'', mock_poster = None,
      mock_alt = js ''identity_veeshna_01.jpg'',
      mock_categories = [js ''library'', js ''nature'', js ''landscape''],
      mock_isFavorite = 0, mock_dateGroup = js ''May 1, 2025''\<rparr>,
     \<lparr>mock_id = js ''vid-001'', mock_type = js ''video'',
      mock_src = js ''https://www.w3schools.com/html/mov_bbb.mp4'',
      mock_poster = Some (js ''https://source.unsplash.com/random/800x600?forest,animals''),
      mock_alt = js ''Big Buck Bunny short clip'',
      mock_categories = [js ''library'', js ''videos'', js ''animals''],
      mock_isFavorite = 0, mock_dateGroup = js ''May 1, 2025''\<rparr>,
     \<lparr>mock_id = js ''img-002'', mock_type = js ''image'',
      mock_src = js ''/source/Pics/identity_veeshna_03.jpg'', mock_poster = None,
      mock_alt = js ''identity_veeshna_03.jpg'',
      mock_categories = [js ''library'', js ''people'', js ''portraits''],
      mock_isFavorite = 1, mock_dateGroup = js ''May 1, 2025''\<rparr>,
     \<lparr>mock_id = js ''img-003'', mock_type = js ''image'',
      mock_src = js ''/source/Pics/identity_veeshna_02.jpg'', mock_poster = None,
      mock_alt = js ''identity_veeshna_02.jpg'',
      mock_categories = [js ''library'', js ''city''],
      mock_isFavorite = 0, mock_dateGroup = js ''May 1, 2025''\<rparr>,
     \<lparr>mock_id = js ''img-004'', mock_type = js ''image'',
      mock_src = js ''/source/Pics/identity_renuka_02.jpg'', mock_poster = None,
      mock_alt = js ''identity_renuka_02.jpg'',
      mock_categories = [js ''library'', js ''food''],
      mock_isFavorite = 0, mock_dateGroup = js ''May 1, 2025''\<rparr>,
     \<lparr>mock_id = js ''img-005'', mock_type = js ''image'',
      mock_src = js ''/source/Pics/identity_renuka_01.jpg'', mock_poster = None,
      mock_alt = js ''identity_renuka_01.jpg'',
      mock_categories = [js ''library'', js ''nature'', js ''landscape'', js ''trips''],
      mock_isFavorite = 0, mock_dateGroup = js ''April 15, 2025''\<rparr>,
     \<lparr>mock_id = js ''img-006'', mock_type = js ''image'',
      mock_src = js ''https://source.unsplash.com/random/600x800?architecture,building'',
      mock_poster = None, mock_alt = js ''Modern glass skyscraper exterior'',
      mock_categories = [js ''library'', js ''architecture'', js ''city''],
      mock_isFavorite = 0, mock_dateGroup = js ''April 15, 2025''\<rparr>,
     \<lparr>mock_id = js ''vid-002'', mock_type = js ''video'',
      mock_src = js ''http://commondatastorage.googleapis.com/gtv-videos-bucket/sample/ElephantsDream.mp4'',
      mock_poster = Some (js ''https://source.unsplash.com/random/800x600?dream,fantasy''),
      mock_alt = js ''Animated sequence from Elephants Dream'',
      mock_categories = [js ''library'', js ''videos'', js ''animation''],
      mock_isFavorite = 1, mock_dateGroup = js ''April 15, 2025''\<rparr>,
     \<lparr>mock_id = js ''img-007'', mock_type = js ''image'',
      mock_src = js ''https://source.unsplash.com/random/800x800?animals,cat'',
      mock_poster = None, mock_alt = js ''Cute fluffy cat relaxing'',
      mock_categories = [js ''library'', js ''animals'', js ''favorites''],
      mock_isFavorite = 0, mock_dateGroup = js ''April 15, 2025''\<rparr>,
     \<lparr>mock_id = js ''img-008'', mock_type = js ''image'',
      mock_src = js ''https://source.unsplash.com/random/1200x800?flower,garden'',
      mock_poster = None, mock_alt = js ''Vibrant blooming flower in a garden'',
      mock_categories = [js ''library'', js ''nature'', js ''garden''],
      mock_isFavorite = 0, mock_dateGroup = js ''April 15, 2025''\<rparr>,
     \<lparr>mock_id = js ''img-009'', mock_type = js ''image'',
      mock_src = js ''https://source.unsplash.com/random/800x600?beach,ocean'',
      mock_poster = None, mock_alt = js ''Tropical beach with clear blue ocean'',
      mock_categories = [js ''library'', js ''nature'', js ''trips''],
      mock_isFavorite = 0, mock_dateGroup = js ''March 5, 2025''\<rparr>,
     \<lparr>mock_id = js ''img-010'', mock_type = js ''image'',
      mock_src = js ''https://source.unsplash.com/random/600x800?coffee,drink'',
      mock_poster = None, mock_alt = js ''Steaming cup of coffee on a table'',
      mock_categories = [js ''library'', js ''everyday''],
      mock_isFavorite = 0, mock_dateGroup = js ''March 5, 2025''\<rparr>,
     \<lparr>mock_id = js ''vid-003'', mock_type = js ''video'',
      mock_src = js ''https://www.w3schools.com/html/movie.mp4'',
      mock_poster = Some (js ''https://source.unsplash.com/random/800x600?movie,cinema''),
      mock_alt = js ''Generic movie trailer'',
      mock_categories = [js ''library'', js ''videos''],
      mock_isFavorite = 0, mock_dateGroup = js ''March 5, 2025''\<rparr>,
     \<lparr>mock_id = js ''img-011'', mock_type = js ''image'',
      mock_src = js ''https://source.unsplash.com/random/800x800?wildlife,bird'',
      mock_poster = None, mock_alt = js ''Colorful bird perched on a branch'',
      mock_categories = [js ''library'', js ''animals''],
      mock_isFavorite = 0, mock_dateGroup = js ''March 5, 2025''\<rparr>,
     \<lparr>mock_id = js ''img-012'', mock_type = js ''image'',
      mock_src = js ''/source/Pics/identity_veeshna_04.jpg'', mock_poster = None,
      mock_alt = js ''Cozy cabin in a snowy landscape'',
      mock_categories = [js ''library'', js ''nature'', js ''trips''],
      mock_isFavorite = 0, mock_dateGroup = js ''January 20, 2025''\<rparr>,
     \<lparr>mock_id = js ''img-013'', mock_type = js ''image'',
      mock_src = js ''https://source.unsplash.com/random/600x800?fireworks,celebration'',
      mock_poster = None, mock_alt = js ''Fireworks exploding in night sky'',
      mock_categories = [js ''library'', js ''celebration'', js ''events''],
      mock_isFavorite = 1, mock_dateGroup = js ''January 20, 2025''\<rparr>]"

text \<open>\<open>isTableEmpty\<close>, lines 45 to 48: \<open>SELECT COUNT(*)\<close> is 0.\<close>

definition isTableEmpty :: "store \<Rightarrow> bool" where
  "isTableEmpty table = (length table = 0)"

text \<open>
  \<open>x || y\<close> on a string that may be \<open>null\<close> or \<open>undefined\<close>: the absent value and the
  empty string are falsy.
\<close>

definition or_else :: "jsstring option \<Rightarrow> jsstring \<Rightarrow> jsstring" where
  "or_else x y = (case x of None \<Rightarrow> y | Some s \<Rightarrow> if s = [] then y else s)"

definition or_null :: "jsstring option \<Rightarrow> jsstring option" where
  "or_null x = (case x of None \<Rightarrow> None | Some s \<Rightarrow> if s = [] then None else Some s)"

text \<open>\<open>Boolean(n)\<close> on an integer.\<close>

definition Boolean :: "int \<Rightarrow> bool" where
  "Boolean n = (n \<noteq> 0)"

text \<open>One turn of the loop of lines 80 to 91: \<open>insertStmt.run\<close> on an item.\<close>

definition insert_mock_item :: "(jsstring \<Rightarrow> jsstring) \<Rightarrow> mock_item \<Rightarrow> store \<Rightarrow> js_error + store" where
  "insert_mock_item number_text item table =
     db_insert (mock_id item) (mock_type item) (mock_src item) (Some (mock_alt item))
       (or_null (mock_poster item)) (mock_isFavorite item) (Some (mock_dateGroup item))
       (JSON_stringify number_text (JArray (map JString (mock_categories item)))) table"

fun insert_mock_items :: "(jsstring \<Rightarrow> jsstring) \<Rightarrow> mock_item list \<Rightarrow> store \<Rightarrow> js_error + store" where
  "insert_mock_items number_text [] table = Inr table"
| "insert_mock_items number_text (item # rest) table =
     (case insert_mock_item number_text item table of
        Inl e \<Rightarrow> Inl e
      | Inr table' \<Rightarrow> insert_mock_items number_text rest table')"

text \<open>
  \<open>initializeDatabase\<close> from the table the database file holds (empty when the file
  is new) to the table it leaves; \<open>Inl\<close> is the error caught at line 96, on which the
  process exits.
\<close>

definition initializeDatabase :: "(jsstring \<Rightarrow> jsstring) \<Rightarrow> store \<Rightarrow> js_error + store" where
  "initializeDatabase number_text table =
     (if isTableEmpty table then insert_mock_items number_text initialMockGalleryItems table
      else Inr table)"

section \<open>The endpoints of \<open>app.js\<close>\<close>

text \<open>
  A handler takes the request and the table and returns the response (status and
  body) with the table it leaves. The \<open>catch\<close> of each handler answers 500.
\<close>

record item =
  item_id :: jsstring
  item_type :: jsstring
  src :: jsstring
  alt :: "jsstring option"
  poster :: "jsstring option"
  isFavorite :: bool
  dateGroup :: jsstring
  categories :: json

record gallery_group =
  group_id :: jsstring
  date :: jsstring
  items :: "item list"

record new_item =
  new_id :: jsstring
  new_type :: jsstring
  new_src :: jsstring
  new_alt :: jsstring
  new_poster :: "jsstring option"
  new_isFavorite :: bool
  new_dateGroup :: "jsstring option"
  new_categories :: json

datatype response_body =
    ErrorBody jsstring
  | GalleryBody "gallery_group list"
  | NewItemBody new_item
  | FavoriteBody jsstring jsstring bool
  | DeleteBody jsstring jsstring

type_synonym response = "nat \<times> response_body"

subsection \<open>\<open>GET /api/gallery\<close>\<close>

text \<open>
  Lines 74 to 78: the row with \<open>isFavorite\<close> made a boolean and \<open>categories\<close> parsed;
  \<open>JSON.parse\<close> throws on a text that is not JSON.
\<close>

definition processedItem :: "row \<Rightarrow> js_error + item" where
  "processedItem r =
     (case JSON_parse (or_else (row_categories r) (js ''[]'')) of
        None \<Rightarrow> Inl SyntaxError
      | Some c \<Rightarrow>
          Inr \<lparr>item_id = row_id r, item_type = row_type r, src = row_src r, alt = row_alt r,
               poster = row_poster r, isFavorite = Boolean (row_isFavorite r),
               dateGroup = row_dateGroup r, categories = c\<rparr>)"

fun processedItems :: "row list \<Rightarrow> js_error + item list" where
  "processedItems [] = Inr []"
| "processedItems (r # rs) =
     (case processedItem r of
        Inl e \<Rightarrow> Inl e
      | Inr i \<Rightarrow> (case processedItems rs of Inl e \<Rightarrow> Inl e | Inr rest \<Rightarrow> Inr (i # rest)))"

text \<open>
  Lines 82 to 91, one turn of \<open>forEach\<close>. \<open>groupedData\<close> is an object literal: where
  the label names a property it inherits, \<open>groupedData[label]\<close> is truthy, no group
  is created, and \<open>.items\<close> of the inherited value is \<open>undefined\<close>, so \<open>.push\<close> throws
  a TypeError.
\<close>

definition group_item :: "(jsstring \<times> gallery_group) list \<Rightarrow> item \<Rightarrow> js_error + (jsstring \<times> gallery_group) list" where
  "group_item groupedData i =
     (let created =
            (case Get groupedData (dateGroup i) of
               Undefined \<Rightarrow>
                 CreateDataProperty groupedData (dateGroup i)
                   \<lparr>group_id = dateGroup i, date = dateGroup i, items = []\<rparr>
             | _ \<Rightarrow> groupedData)
      in case Get created (dateGroup i) of
           Own g \<Rightarrow> Inr (CreateDataProperty created (dateGroup i) (g\<lparr>items := items g @ [i]\<rparr>))
         | Inherited \<Rightarrow> Inl TypeError
         | Undefined \<Rightarrow> Inl TypeError)"

fun group_items :: "(jsstring \<times> gallery_group) list \<Rightarrow> item list \<Rightarrow> js_error + (jsstring \<times> gallery_group) list" where
  "group_items groupedData [] = Inr groupedData"
| "group_items groupedData (i # rest) =
     (case group_item groupedData i of
        Inl e \<Rightarrow> Inl e
      | Inr groupedData' \<Rightarrow> group_items groupedData' rest)"

text \<open>
  Line 94, the comparator \<open>(a, b) => new Date(b.date) - new Date(a.date)\<close>.
  \<open>Date_parse\<close> gives the time value of \<open>new Date(label)\<close> in milliseconds, or \<open>None\<close>
  for an Invalid Date (NaN). A label such as \<open>May 1, 2025\<close> is not in the format
  ECMAScript defines, so what it parses to is the engine's choice: the parser is a
  parameter. The difference is NaN when either date is invalid. It is computed on
  doubles, and rounding keeps its sign, which is all that sorting reads.
\<close>

definition compare_dates :: "(jsstring \<Rightarrow> int option) \<Rightarrow> gallery_group \<Rightarrow> gallery_group \<Rightarrow> int option" where
  "compare_dates Date_parse a b =
     (case Date_parse (date b) of
        None \<Rightarrow> None
      | Some tb \<Rightarrow> (case Date_parse (date a) of None \<Rightarrow> None | Some ta \<Rightarrow> Some (tb - ta)))"

text \<open>
  \<open>Array.prototype.sort\<close>. \<open>SortCompare\<close> reads a comparator result of NaN as 0. The
  sort is stable, and for a comparator that is consistent on the elements its result
  is fixed: the elements in ascending order of the comparator, equal ones in their
  order in the array. \<open>Array_sort\<close> computes that result by insertion. Where the
  comparator is not consistent the order is left to the engine.
\<close>

definition SortCompare :: "('a \<Rightarrow> 'a \<Rightarrow> int option) \<Rightarrow> 'a \<Rightarrow> 'a \<Rightarrow> int" where
  "SortCompare comparefn x y = (case comparefn x y of None \<Rightarrow> 0 | Some v \<Rightarrow> v)"

fun sort_insert :: "('a \<Rightarrow> 'a \<Rightarrow> int option) \<Rightarrow> 'a \<Rightarrow> 'a list \<Rightarrow> 'a list" where
  "sort_insert comparefn x [] = [x]"
| "sort_insert comparefn x (y # ys) =
     (if SortCompare comparefn x y \<le> 0 then x # y # ys else y # sort_insert comparefn x ys)"

fun Array_sort :: "('a \<Rightarrow> 'a \<Rightarrow> int option) \<Rightarrow> 'a list \<Rightarrow> 'a list" where
  "Array_sort comparefn [] = []"
| "Array_sort comparefn (x # xs) = sort_insert comparefn x (Array_sort comparefn xs)"

text \<open>
  Lines 81 to 94, from the processed items to the sorted array of groups: the
  grouping transformer of the specification.
\<close>

definition sortedGroupedData :: "(jsstring \<Rightarrow> int option) \<Rightarrow> item list \<Rightarrow> js_error + gallery_group list" where
  "sortedGroupedData Date_parse processed =
     (case group_items [] processed of
        Inl e \<Rightarrow> Inl e
      | Inr groupedData \<Rightarrow>
          Inr (Array_sort (compare_dates Date_parse) (Object_values groupedData)))"

text \<open>The handler, lines 65 to 101: whatever is thrown in the \<open>try\<close> block is answered 500.\<close>

definition get_gallery :: "(jsstring \<Rightarrow> int option) \<Rightarrow> store \<Rightarrow> response" where
  "get_gallery Date_parse table =
     (case processedItems table of
        Inl e \<Rightarrow> (500, ErrorBody (js ''Failed to fetch gallery items''))
      | Inr processed \<Rightarrow>
          (case sortedGroupedData Date_parse processed of
             Inl e \<Rightarrow> (500, ErrorBody (js ''Failed to fetch gallery items''))
           | Inr groups \<Rightarrow> (200, GalleryBody groups)))"

subsection \<open>\<open>POST /api/gallery\<close>\<close>

text \<open>
  The request after \<open>upload.single('mediaFile')\<close>: \<open>req.file\<close> (absent when the form
  carried no file; \<open>filename\<close> is the name the storage engine gave the stored file)
  and the three text fields of \<open>req.body\<close> the handler reads, each present or not.
\<close>

record upload_file =
  originalname :: jsstring
  mimetype :: jsstring
  filename :: jsstring

record upload_request =
  req_file :: "upload_file option"
  body_alt :: "jsstring option"
  body_categories :: "jsstring option"
  body_dateGroup :: "jsstring option"

text \<open>Lines 118 to 124: \<open>categories ? JSON.parse(categories) : []\<close>, and \<open>[]\<close> when that throws.\<close>

definition parsedCategories :: "jsstring option \<Rightarrow> json" where
  "parsedCategories field =
     (case field of
        None \<Rightarrow> JArray []
      | Some c \<Rightarrow>
          if c = [] then JArray []
          else (case JSON_parse c of None \<Rightarrow> JArray [] | Some v \<Rightarrow> v))"

text \<open>
  Lines 104 to 142. \<open>now\<close> is the reading of \<open>Date.now()\<close> at line 115 and \<open>suffix\<close>
  the text \<open>Math.random().toString(36).substring(2, 9)\<close> gives there.
\<close>

definition post_gallery ::
  "(jsstring \<Rightarrow> jsstring) \<Rightarrow> nat \<Rightarrow> jsstring \<Rightarrow> upload_request \<Rightarrow> store \<Rightarrow> response \<times> store" where
  "post_gallery number_text now suffix req table =
     (case req_file req of
        None \<Rightarrow> ((400, ErrorBody (js ''No file uploaded.'')), table)
      | Some f \<Rightarrow>
          (let itemType = (if startsWith (mimetype f) (js ''image/'') then js ''image'' else js ''video'');
               itemSrc = js ''/uploads/'' @ filename f;
               itemId = js ''uploaded-'' @ decimal now @ js ''-'' @ suffix;
               cats = parsedCategories (body_categories req);
               itemAlt = or_else (body_alt req) (originalname f)
           in case db_insert itemId itemType itemSrc (Some itemAlt) None 0 (body_dateGroup req)
                     (JSON_stringify number_text cats) table of
                Inl e \<Rightarrow> ((500, ErrorBody (js ''Failed to upload item'')), table)
              | Inr table' \<Rightarrow>
                  ((201, NewItemBody
                      \<lparr>new_id = itemId, new_type = itemType, new_src = itemSrc, new_alt = itemAlt,
                       new_poster = None, new_isFavorite = False,
                       new_dateGroup = body_dateGroup req, new_categories = cats\<rparr>),
                   table')))"

subsection \<open>\<open>PUT /api/gallery/:id/favorite\<close>\<close>

text \<open>Lines 145 to 167.\<close>

definition newFavoriteStatus :: "int \<Rightarrow> int" where
  "newFavoriteStatus current = (if current = 0 then 1 else 0)"

definition put_favorite :: "jsstring \<Rightarrow> store \<Rightarrow> response \<times> store" where
  "put_favorite itemId table =
     (case db_get table itemId of
        None \<Rightarrow> ((404, ErrorBody (js ''Item not found'')), table)
      | Some r \<Rightarrow>
          ((200, FavoriteBody (js ''Favorite status updated'') itemId
                   (Boolean (newFavoriteStatus (row_isFavorite r)))),
           db_update_isFavorite (newFavoriteStatus (row_isFavorite r)) itemId table))"

subsection \<open>\<open>DELETE /api/gallery/:id\<close>\<close>

text \<open>
  Lines 170 to 205. The third component is the \<open>src\<close> of the row when it starts with
  \<open>/uploads/\<close>: the file of the upload directory it names is then unlinked, after the
  response and whatever the outcome.
\<close>

definition delete_gallery :: "jsstring \<Rightarrow> store \<Rightarrow> response \<times> store \<times> jsstring option" where
  "delete_gallery itemId table =
     (case db_get table itemId of
        None \<Rightarrow> ((404, ErrorBody (js ''Item not found'')), table, None)
      | Some r \<Rightarrow>
          (case db_delete itemId table of
             (changes, table') \<Rightarrow>
               if changes = 0 then ((404, ErrorBody (js ''Item not found in database'')), table', None)
               else ((200, DeleteBody (js ''Item deleted successfully'') itemId), table',
                     if startsWith (row_src r) (js ''/uploads/'') then Some (row_src r) else None)))"

section \<open>An instance of the parameters\<close>

text \<open>
  Closed statements need a date parser and a number printer to run with. \<open>seed_dates\<close>
  gives the four labels of the seed data the time value of their midnight in a
  process whose time zone is UTC and rejects every other string; it is applied
  below only to those four labels and to the labels \<open>Undated\<close> and \<open>someday\<close>,
  which hold no number and are an Invalid Date to \<open>new Date\<close>. \<open>lexeme_text\<close> writes
  a number back as it was read; it is applied below only where no number occurs.
\<close>

definition seed_dates :: "jsstring \<Rightarrow> int option" where
  "seed_dates label =
     (if label = js ''May 1, 2025'' then Some 1746057600000
      else if label = js ''April 15, 2025'' then Some 1744675200000
      else if label = js ''March 5, 2025'' then Some 1741132800000
      else if label = js ''January 20, 2025'' then Some 1737331200000
      else None)"

definition lexeme_text :: "jsstring \<Rightarrow> jsstring" where
  "lexeme_text lexeme = lexeme"

section \<open>Values to state and run examples with\<close>

text \<open>A row to build small tables from: an uploaded image with the given id, flag and label.\<close>

definition sample_row :: "string \<Rightarrow> int \<Rightarrow> string \<Rightarrow> row" where
  "sample_row i fav label =
     \<lparr>row_id = js i, row_type = js ''image'', row_src = js ''/uploads/1-a.png'',
      row_alt = Some (js ''a.png''), row_poster = None, row_isFavorite = fav,
      row_dateGroup = js label, row_categories = Some (js ''[]'')\<rparr>"

text \<open>The item \<open>GET /api/gallery\<close> makes of such a row, and a group with a label and its items.\<close>

definition sample_item :: "string \<Rightarrow> int \<Rightarrow> string \<Rightarrow> item" where
  "sample_item i fav label =
     \<lparr>item_id = js i, item_type = js ''image'', src = js ''/uploads/1-a.png'',
      alt = Some (js ''a.png''), poster = None, isFavorite = Boolean fav,
      dateGroup = js label, categories = JArray []\<rparr>"

definition sample_group :: "string \<Rightarrow> item list \<Rightarrow> gallery_group" where
  "sample_group label its = \<lparr>group_id = js label, date = js label, items = its\<rparr>"

text \<open>An upload request: a file \<open>cat.png\<close> of the given MIME type, no \<open>alt\<close>, the given \<open>categories\<close> field.\<close>

definition sample_request :: "string \<Rightarrow> string \<Rightarrow> upload_request" where
  "sample_request mime cats =
     \<lparr>req_file = Some \<lparr>originalname = js ''cat.png'', mimetype = js mime,
                        filename = js ''1746057600000-cat.png''\<rparr>,
      body_alt = None, body_categories = Some (js cats),
      body_dateGroup = Some (js ''May 1, 2025'')\<rparr>"

text \<open>
  The row the loop of \<open>initializeDatabase\<close> writes for an item of the seed list, and
  the item \<open>GET /api/gallery\<close> makes of that row.
\<close>

definition seeded_row :: "(jsstring \<Rightarrow> jsstring) \<Rightarrow> mock_item \<Rightarrow> row" where
  "seeded_row number_text m =
     \<lparr>row_id = mock_id m, row_type = mock_type m, row_src = mock_src m,
      row_alt = Some (mock_alt m), row_poster = or_null (mock_poster m),
      row_isFavorite = mock_isFavorite m, row_dateGroup = mock_dateGroup m,
      row_categories = Some (JSON_stringify number_text (JArray (map JString (mock_categories m))))\<rparr>"

definition seeded_item :: "mock_item \<Rightarrow> item" where
  "seeded_item m =
     \<lparr>item_id = mock_id m, item_type = mock_type m, src = mock_src m,
      alt = Some (mock_alt m), poster = or_null (mock_poster m),
      isFavorite = Boolean (mock_isFavorite m), dateGroup = mock_dateGroup m,
      categories = JArray (map JString (mock_categories m))\<rparr>"

section \<open>The parser leaves less than it was given\<close>

text \<open>
  Whatever \<open>json_value\<close>, \<open>json_elements\<close> and \<open>json_members\<close> read, the rest is
  shorter than the text. So the length tests in their definitions never fail, and
  the functions satisfy the equations without them.
\<close>

lemma digits_length: "digits cs = Some (ds, r) \<Longrightarrow> length r < length cs"
proof -
  assume a: "digits cs = Some (ds, r)"
  then have "takeWhile is_digit cs \<noteq> []" and "r = dropWhile is_digit cs"
    by (auto simp: digits_def split: if_splits)
  moreover have "length (takeWhile is_digit cs) + length (dropWhile is_digit cs) = length cs"
    by (metis length_append takeWhile_dropWhile_id)
  ultimately show ?thesis
    by (cases "takeWhile is_digit cs") auto
qed

lemma number_int_length: "number_int cs = Some (i, r) \<Longrightarrow> length r < length cs"
  by (auto simp: number_int_def split: list.splits if_splits dest: digits_length)

lemma number_frac_length: "number_frac cs = Some (f, r) \<Longrightarrow> length r \<le> length cs"
  by (auto simp: number_frac_def split: list.splits if_splits option.splits dest!: digits_length)

lemma number_exp_length: "number_exp cs = Some (e, r) \<Longrightarrow> length r \<le> length cs"
  by (auto simp: number_exp_def split: list.splits if_splits option.splits dest!: digits_length)

lemma number_unsigned_length: "number_unsigned cs = Some (l, r) \<Longrightarrow> length r < length cs"
  by (auto simp: number_unsigned_def split: option.splits
        dest!: number_int_length number_frac_length number_exp_length)

lemma number_length: "number cs = Some (l, r) \<Longrightarrow> length r < length cs"
  by (auto simp: number_def split: list.splits if_splits option.splits dest!: number_unsigned_length)

lemma literal_length:
  "literal word v cs = Some (w, r) \<Longrightarrow> word \<noteq> [] \<Longrightarrow> length r < length cs"
  by (cases cs; cases word) (auto simp: literal_def split: if_splits)

lemma json_consumes:
  "(\<forall>v r. json_value cs = Some (v, r) \<longrightarrow> length r < length cs)"
  "(\<forall>vs r. json_elements cs = Some (vs, r) \<longrightarrow> length r < length cs)"
  "(\<forall>ms r. json_members cs = Some (ms, r) \<longrightarrow> length r < length cs)"
proof (induction cs rule: json_value_json_elements_json_members.induct)
  case (1 cs)
  show ?case
  proof (intro allI impI)
    fix v r
    assume a: "json_value cs = Some (v, r)"
    then obtain c r0 where sk: "skip_ws cs = c # r0"
      by (cases "skip_ws cs") (auto simp: json_value.simps [of cs])
    have r0: "length r0 < length cs"
      using skip_ws_Cons_length [OF sk] .
    have but: "length (c # r0) \<le> length cs"
      using length_skip_ws [of cs] sk by simp
    consider (str) "c = 0x22" | (arr) "c \<noteq> 0x22" "c = 0x5B" | (obj) "c \<noteq> 0x22" "c \<noteq> 0x5B" "c = 0x7B"
      | (other) "c \<noteq> 0x22" "c \<noteq> 0x5B" "c \<noteq> 0x7B"
      by blast
    then show "length r < length cs"
    proof cases
      case str
      then show ?thesis
        using a sk r0 by (auto simp: json_value.simps [of cs] split: option.splits dest!: string_chars_length)
    next
      case arr
      show ?thesis
      proof (cases "skip_ws r0")
        case Nil
        then show ?thesis using a sk arr by (simp add: json_value.simps [of cs])
      next
        case (Cons c1 r1)
        show ?thesis
        proof (cases "c1 = 0x5D")
          case True
          then show ?thesis
            using a sk arr Cons r0 skip_ws_Cons_length [OF Cons]
            by (simp add: json_value.simps [of cs])
        next
          case False
          then have "\<forall>vs r. json_elements r0 = Some (vs, r) \<longrightarrow> length r < length r0"
            using "1.IH"(1) [OF sk _ _ Cons] arr by simp
          then show ?thesis
            using a sk arr Cons False r0
            by (auto simp: json_value.simps [of cs] split: option.splits)
        qed
      qed
    next
      case obj
      show ?thesis
      proof (cases "skip_ws r0")
        case Nil
        then show ?thesis using a sk obj by (simp add: json_value.simps [of cs])
      next
        case (Cons c1 r1)
        show ?thesis
        proof (cases "c1 = 0x7D")
          case True
          then show ?thesis
            using a sk obj Cons r0 skip_ws_Cons_length [OF Cons]
            by (simp add: json_value.simps [of cs])
        next
          case False
          then have "\<forall>ms r. json_members r0 = Some (ms, r) \<longrightarrow> length r < length r0"
            using "1.IH"(2) [OF sk _ _ _ Cons] obj by simp
          then show ?thesis
            using a sk obj Cons False r0
            by (auto simp: json_value.simps [of cs] split: option.splits)
        qed
      qed
    next
      case other
      have "js ''null'' \<noteq> []" "js ''true'' \<noteq> []" "js ''false'' \<noteq> []"
        by (simp_all add: js_def)
      then show ?thesis
        using a sk other but
        by (auto simp: json_value.simps [of cs] split: option.splits if_splits
              dest!: literal_length number_length)
    qed
  qed
next
  case (2 cs)
  show ?case
  proof (intro allI impI)
    fix vs r
    assume a: "json_elements cs = Some (vs, r)"
    then obtain v r0 where val: "json_value cs = Some (v, r0)"
      by (cases "json_value cs") (auto simp: json_elements.simps [of cs])
    have short: "length r0 < length cs"
      using a val by (auto simp: json_elements.simps [of cs] split: if_splits)
    from a val short obtain c r1 where sk: "skip_ws r0 = c # r1"
      by (cases "skip_ws r0") (auto simp: json_elements.simps [of cs])
    have r1: "length r1 < length r0"
      using skip_ws_Cons_length [OF sk] .
    show "length r < length cs"
    proof (cases "c = 0x5D")
      case True
      then show ?thesis
        using a val short sk r1 by (simp add: json_elements.simps [of cs])
    next
      case False
      then have comma: "c = 0x2C"
        using a val short sk by (auto simp: json_elements.simps [of cs] split: if_splits)
      have "\<forall>vs r. json_elements r1 = Some (vs, r) \<longrightarrow> length r < length r1"
        using "2.IH"(2) [OF val refl short sk False comma] .
      then show ?thesis
        using a val short sk r1 False comma
        by (auto simp: json_elements.simps [of cs] split: option.splits)
    qed
  qed
next
  case (3 cs)
  show ?case
  proof (intro allI impI)
    fix ms r
    assume a: "json_members cs = Some (ms, r)"
    then obtain q r0 where sk: "skip_ws cs = q # r0"
      by (cases "skip_ws cs") (auto simp: json_members.simps [of cs])
    have quote: "q = 0x22"
      using a sk by (auto simp: json_members.simps [of cs] split: if_splits)
    from a sk quote obtain k r1 where key: "string_chars r0 = Some (k, r1)"
      by (cases "string_chars r0") (auto simp: json_members.simps [of cs])
    from a sk quote key obtain colon r2 where sk1: "skip_ws r1 = colon # r2"
      by (cases "skip_ws r1") (auto simp: json_members.simps [of cs])
    have colon: "colon = 0x3A"
      using a sk quote key sk1 by (auto simp: json_members.simps [of cs] split: if_splits)
    from a sk quote key sk1 colon obtain v r3 where val: "json_value r2 = Some (v, r3)"
      by (cases "json_value r2") (auto simp: json_members.simps [of cs])
    have short: "length r3 < length r2"
      using a sk quote key sk1 colon val by (auto simp: json_members.simps [of cs] split: if_splits)
    from a sk quote key sk1 colon val short obtain c r4 where sk3: "skip_ws r3 = c # r4"
      by (cases "skip_ws r3") (auto simp: json_members.simps [of cs])
    have chain: "length r4 < length cs"
      using skip_ws_Cons_length [OF sk] string_chars_length [OF key] skip_ws_Cons_length [OF sk1]
        short skip_ws_Cons_length [OF sk3] by simp
    show "length r < length cs"
    proof (cases "c = 0x7D")
      case True
      then show ?thesis
        using a sk quote key sk1 colon val short sk3 chain by (simp add: json_members.simps [of cs])
    next
      case False
      then have comma: "c = 0x2C"
        using a sk quote key sk1 colon val short sk3
        by (auto simp: json_members.simps [of cs] split: if_splits)
      have "\<forall>ms r. json_members r4 = Some (ms, r) \<longrightarrow> length r < length r4"
        using "3.IH"(2) [OF sk quote key refl sk1 colon val refl short sk3 False comma] .
      then show ?thesis
        using a sk quote key sk1 colon val short sk3 chain False comma
        by (auto simp: json_members.simps [of cs] split: option.splits)
    qed
  qed
qed

lemma json_value_consumes: "json_value cs = Some (v, r) \<Longrightarrow> length r < length cs"
  using json_consumes(1) by blast

lemma json_elements_unguarded:
  "json_elements cs =
     (case json_value cs of
        None \<Rightarrow> None
      | Some (v, r) \<Rightarrow>
          (case skip_ws r of
             [] \<Rightarrow> None
           | c # r' \<Rightarrow>
               if c = 0x5D then Some ([v], r')
               else if c = 0x2C then
                 (case json_elements r' of
                    None \<Rightarrow> None
                  | Some (vs, r'') \<Rightarrow> Some (v # vs, r''))
               else None))"
  by (simp add: json_elements.simps [of cs] json_value_consumes split: option.splits)

lemma json_members_unguarded:
  "json_members cs =
     (case skip_ws cs of
        [] \<Rightarrow> None
      | q # r \<Rightarrow>
          if q = 0x22 then
            (case string_chars r of
               None \<Rightarrow> None
             | Some (k, r1) \<Rightarrow>
                 (case skip_ws r1 of
                    [] \<Rightarrow> None
                  | colon # r2 \<Rightarrow>
                      if colon = 0x3A then
                        (case json_value r2 of
                           None \<Rightarrow> None
                         | Some (v, r3) \<Rightarrow>
                             (case skip_ws r3 of
                                [] \<Rightarrow> None
                              | c # r4 \<Rightarrow>
                                  if c = 0x7D then Some ([(k, v)], r4)
                                  else if c = 0x2C then
                                    (case json_members r4 of
                                       None \<Rightarrow> None
                                     | Some (ms, r5) \<Rightarrow> Some ((k, v) # ms, r5))
                                  else None))
                      else None))
          else None)"
  by (simp add: json_members.simps [of cs] json_value_consumes split: option.splits list.splits)

section \<open>\<open>JSON.parse\<close> reads back what \<open>JSON.stringify\<close> writes for an array of strings\<close>

lemma nibble_less: "(x AND 15 :: jschar) < 16"
  using and_mask_less' [of 4 x] by (simp add: mask_eq_exp_minus_1)

lemma nibble_cases:
  assumes "n < (16 :: jschar)"
  shows "n \<in> {0, 1, 2, 3, 4, 5, 6, 7, 8, 9, 10, 11, 12, 13, 14, 15}"
proof -
  have "unat n < 16"
    using assms by (simp add: word_less_nat_alt)
  then have "unat n \<in> {0, 1, 2, 3, 4, 5, 6, 7, 8, 9, 10, 11, 12, 13, 14, 15}"
    by (simp; arith)
  then have "(of_nat (unat n) :: jschar) \<in> of_nat ` {0, 1, 2, 3, 4, 5, 6, 7, 8, 9, 10, 11, 12, 13, 14, 15}"
    by (rule imageI)
  then show ?thesis
    by simp
qed

lemma nibbles_word: 
  "push_bit 12 (drop_bit 12 c AND 15) OR push_bit 8 (drop_bit 8 c AND 15)
     OR push_bit 4 (drop_bit 4 c AND 15) OR (c AND 15) = (c :: jschar)"
proof -
  have m: "(15 :: jschar) = mask 4"
    by (simp add: mask_eq_exp_minus_1)
  show ?thesis
    unfolding m
  proof (rule bit_word_eqI)
    fix n
    assume "n < LENGTH(16)"
    then consider "n < 4" | "4 \<le> n" "n < 8" | "8 \<le> n" "n < 12" | "12 \<le> n" "n < 16"
      by fastforce
    then show "bit (push_bit 12 (drop_bit 12 c AND mask 4) OR push_bit 8 (drop_bit 8 c AND mask 4)
                 OR push_bit 4 (drop_bit 4 c AND mask 4) OR (c AND mask 4)) n = bit c n"
      by cases (auto simp: bit_simps)
  qed
qed

lemma hex_value_hex_digit:
  assumes "n < 16"
  shows "hex_value (hex_digit n) = Some n"
  using nibble_cases [OF assms]
  by (elim insertE emptyE) (simp_all add: hex_value_def hex_digit_def)

lemma hex4_UnicodeEscape:
  "hex4 (hex_digit (drop_bit 12 c AND 15)) (hex_digit (drop_bit 8 c AND 15))
        (hex_digit (drop_bit 4 c AND 15)) (hex_digit (c AND 15)) = Some c"
  unfolding hex4_def hex_value_hex_digit [OF nibble_less]
  by (simp only: prod.case option.case nibbles_word)

lemma string_chars_plain:
  "c \<noteq> 0x22 \<Longrightarrow> c \<noteq> 0x5C \<Longrightarrow> \<not> c < 0x20 \<Longrightarrow>
   string_chars (c # rest) = cons_unit c (string_chars rest)"
  by simp

lemma surrogate_plain:
  assumes "is_leading_surrogate c \<or> is_trailing_surrogate c"
  shows "c \<noteq> 0x22" and "c \<noteq> 0x5C" and "\<not> c < 0x20"
  using assms
  by (auto simp: is_leading_surrogate_def is_trailing_surrogate_def word_le_nat_alt word_less_nat_alt)

lemma string_chars_quote_unit:
  "string_chars (quote_unit c @ rest) = cons_unit c (string_chars rest)"
proof (cases "c = 0x08 \<or> c = 0x09 \<or> c = 0x0A \<or> c = 0x0C \<or> c = 0x0D \<or> c = 0x22 \<or> c = 0x5C")
  case True
  then show ?thesis
    by (elim disjE) (simp_all add: quote_unit_def single_escape_def)
next
  case False
  show ?thesis
  proof (cases "c < 0x20 \<or> is_leading_surrogate c \<or> is_trailing_surrogate c")
    case True
    with False have "quote_unit c = UnicodeEscape c"
      by (simp add: quote_unit_def)
    then show ?thesis
      by (simp add: UnicodeEscape_def hex4_UnicodeEscape)
  next
    case unescaped: False
    with False have "quote_unit c = [c]"
      by (simp add: quote_unit_def)
    then show ?thesis
      using False unescaped by (simp add: string_chars_plain)
  qed
qed

lemma string_chars_quote_units:
  "string_chars (quote_units s @ 0x22 # rest) = Some (s, rest)"
proof (induction s rule: quote_units.induct)
  case 1
  show ?case by simp
next
  case (2 c)
  have "string_chars (quote_unit c @ 0x22 # rest) = cons_unit c (string_chars (0x22 # rest))"
    by (rule string_chars_quote_unit)
  then show ?case by (simp add: cons_unit_def)
next
  case (3 c d cs)
  show ?case
  proof (cases "is_leading_surrogate c \<and> is_trailing_surrogate d")
    case True
    then have eq: "quote_units (c # d # cs) = c # d # quote_units cs"
      by simp
    have "string_chars (c # d # quote_units cs @ 0x22 # rest)
        = cons_unit c (cons_unit d (string_chars (quote_units cs @ 0x22 # rest)))"
      using True surrogate_plain [of c] surrogate_plain [of d]
      by (simp only: string_chars_plain simp_thms)
    then show ?thesis
      unfolding eq append_Cons 3(1) [OF True] by (simp add: cons_unit_def)
  next
    case False
    then have "(is_leading_surrogate c \<and> is_trailing_surrogate d) = False"
      by simp
    then have eq: "quote_units (c # d # cs) = quote_unit c @ quote_units (d # cs)"
      by (simp only: quote_units.simps if_False)
    show ?thesis
      unfolding eq append_assoc string_chars_quote_unit 3(2) [OF False]
      by (simp add: cons_unit_def)
  qed
qed

lemma skip_ws_not_ws: "\<not> is_ws c \<Longrightarrow> skip_ws (c # cs) = c # cs"
  by (simp add: skip_ws_def)

lemma json_value_string: "json_value (QuoteJSONString s @ rest) = Some (JString s, rest)"
proof -
  have "QuoteJSONString s @ rest = 0x22 # quote_units s @ 0x22 # rest"
    by (simp add: QuoteJSONString_def)
  moreover have "skip_ws (0x22 # quote_units s @ 0x22 # rest) = 0x22 # quote_units s @ 0x22 # rest"
    by (simp add: skip_ws_not_ws is_ws_def)
  ultimately show ?thesis
    by (simp add: json_value.simps [of "0x22 # quote_units s @ 0x22 # rest"] string_chars_quote_units)
qed

lemma QuoteJSONString_not_Nil: "QuoteJSONString s \<noteq> []"
  by (simp add: QuoteJSONString_def)

lemma json_elements_strings:
  "json_elements (join_comma (map QuoteJSONString (x # xs)) @ 0x5D # rest)
     = Some (map JString (x # xs), rest)"
proof (induction xs arbitrary: x)
  case Nil
  have "json_elements (QuoteJSONString x @ 0x5D # rest) = Some ([JString x], rest)"
    by (simp add: json_elements.simps [of "QuoteJSONString x @ 0x5D # rest"] json_value_string
          QuoteJSONString_not_Nil skip_ws_not_ws is_ws_def)
  then show ?case by simp
next
  case (Cons y ys)
  let ?tail = "join_comma (map QuoteJSONString (y # ys)) @ 0x5D # rest"
  have "json_elements (QuoteJSONString x @ 0x2C # ?tail) = Some (JString x # map JString (y # ys), rest)"
    by (simp add: json_elements.simps [of "QuoteJSONString x @ 0x2C # ?tail"] json_value_string
          QuoteJSONString_not_Nil skip_ws_not_ws is_ws_def Cons.IH del: list.map join_comma.simps)
  then show ?case by simp
qed

lemma JSON_stringify_strings:
  "JSON_stringify number_text (JArray (map JString xs))
     = 0x5B # join_comma (map QuoteJSONString xs) @ [0x5D]"
  by (simp add: comp_def)

lemma JSON_parse_stringify_strings:
  "JSON_parse (JSON_stringify number_text (JArray (map JString xs))) = Some (JArray (map JString xs))"
proof (cases xs)
  case Nil
  have "json_value [0x5B, 0x5D] = Some (JArray [], [])"
    by (simp add: json_value.simps [of "[0x5B, 0x5D]"] skip_ws_not_ws is_ws_def)
  then show ?thesis
    using Nil by (simp add: JSON_parse_def skip_ws_def)
next
  case (Cons x xs')
  let ?body = "join_comma (map QuoteJSONString (x # xs')) @ [0x5D]"
  obtain q where q: "?body = 0x22 # q"
    by (cases xs') (simp_all add: QuoteJSONString_def)
  have elems: "json_elements ?body = Some (map JString (x # xs'), [])"
    by (rule json_elements_strings)
  have "json_value (0x5B # ?body) = Some (JArray (map JString (x # xs')), [])"
    unfolding json_value.simps [of "0x5B # ?body"]
    using elems q
    by (simp add: skip_ws_not_ws is_ws_def del: list.map join_comma.simps)
  then show ?thesis
    using Cons by (simp add: JSON_stringify_strings JSON_parse_def skip_ws_def del: list.map join_comma.simps JSON_stringify.simps)
qed

lemma stringify_strings_not_Nil: "JSON_stringify number_text (JArray (map JString xs)) \<noteq> []"
  by (simp add: JSON_stringify_strings del: JSON_stringify.simps)

lemma JSON_parse_empty_array: "JSON_parse (js ''[]'') = Some (JArray [])"
  by (simp add: JSON_parse_def json_value.simps js_def skip_ws_def is_ws_def)

lemma JSON_parse_Nil: "JSON_parse [] = None"
  by (simp add: JSON_parse_def json_value.simps skip_ws_def)

text \<open>
  Claim C2. The categories are written to the column as \<open>JSON.stringify\<close> of the
  array (\<open>db.js\<close> line 89, \<open>app.js\<close> line 130) and read back as
  \<open>JSON.parse(item.categories || '[]')\<close> (\<open>app.js\<close> line 77). For every list of
  strings, reading what was written gives the same list; a column that is \<open>NULL\<close> or
  the empty string reads as the empty list, and none of the three throws. The same
  holds of the item \<open>processedItem\<close> makes of a row with such a column.
\<close>

theorem categories_round_trip:
  "JSON_parse (or_else (Some (JSON_stringify number_text (JArray (map JString cats)))) (js ''[]''))
     = Some (JArray (map JString cats))
   \<and> JSON_parse (or_else None (js ''[]'')) = Some (JArray [])
   \<and> JSON_parse (or_else (Some []) (js ''[]'')) = Some (JArray [])
   \<and> map_sum (\<lambda>e. e) categories
         (processedItem (r\<lparr>row_categories := Some (JSON_stringify number_text (JArray (map JString cats)))\<rparr>))
       = Inr (JArray (map JString cats))
   \<and> map_sum (\<lambda>e. e) categories (processedItem (r\<lparr>row_categories := None\<rparr>)) = Inr (JArray [])
   \<and> map_sum (\<lambda>e. e) categories (processedItem (r\<lparr>row_categories := Some []\<rparr>)) = Inr (JArray [])"
proof -
  have enc: "or_else (Some (JSON_stringify number_text (JArray (map JString cats)))) (js ''[]'')
      = JSON_stringify number_text (JArray (map JString cats))"
    using stringify_strings_not_Nil [of number_text cats] by (simp add: or_else_def del: JSON_stringify.simps)
  have absent: "or_else None (js ''[]'') = js ''[]''" "or_else (Some []) (js ''[]'') = js ''[]''"
    by (simp_all add: or_else_def)
  show ?thesis
    unfolding processedItem_def
    by (simp add: enc absent JSON_parse_stringify_strings JSON_parse_empty_array del: JSON_stringify.simps)
qed

section \<open>Facts about the table\<close>

lemma db_get_None_iff: "db_get table itemId = None \<longleftrightarrow> itemId \<notin> set (map row_id table)"
  by (induction table) (auto simp: db_get_def)

lemma db_get_Some_id: "db_get table itemId = Some r \<Longrightarrow> row_id r = itemId \<and> r \<in> set table"
  unfolding db_get_def by (induction table) (auto split: if_splits)

lemma db_get_update_same:
  "db_get table itemId = Some r \<Longrightarrow>
   db_get (db_update_isFavorite v itemId table) itemId = Some (r\<lparr>row_isFavorite := v\<rparr>)"
  unfolding db_get_def db_update_isFavorite_def by (induction table) (auto split: if_splits)

lemma db_get_update_other:
  "j \<noteq> itemId \<Longrightarrow> db_get (db_update_isFavorite v itemId table) j = db_get table j"
  unfolding db_get_def db_update_isFavorite_def by (induction table) auto

lemma row_id_update: "map row_id (db_update_isFavorite v itemId table) = map row_id table"
  unfolding db_update_isFavorite_def by (induction table) auto

lemma db_update_written:
  assumes "x \<in> set (db_update_isFavorite v itemId table)" and "row_id x = itemId"
  shows "row_isFavorite x = v"
proof -
  from assms(1) obtain y where
    "x = (if row_id y = itemId then y\<lparr>row_isFavorite := v\<rparr> else y)"
    unfolding db_update_isFavorite_def set_map by (rule imageE)
  then show ?thesis
    using assms(2) by (cases "row_id y = itemId") simp_all
qed

lemma db_get_filter_same: "db_get (filter (\<lambda>x. row_id x \<noteq> X) table) X = None"
  by (auto simp: db_get_None_iff)

lemma db_get_filter_other:
  "j \<noteq> X \<Longrightarrow> db_get (filter (\<lambda>x. row_id x \<noteq> X) table) j = db_get table j"
  unfolding db_get_def by (induction table) auto

lemma filter_id_distinct:
  "distinct (map row_id table) \<Longrightarrow> r \<in> set table \<Longrightarrow>
   filter (\<lambda>x. row_id x = row_id r) table = [r]"
proof (induction table)
  case Nil
  then show ?case by simp
next
  case (Cons a table)
  show ?case
  proof (cases "a = r")
    case True
    have "filter (\<lambda>x. row_id x = row_id r) table = []"
      using Cons.prems(1) True by (auto simp: filter_empty_conv image_iff)
    then show ?thesis using True by simp
  next
    case False
    then have "r \<in> set table" using Cons.prems(2) by simp
    moreover have "row_id a \<noteq> row_id r"
      using Cons.prems(1) \<open>r \<in> set table\<close> by auto
    ultimately show ?thesis using Cons by simp
  qed
qed

text \<open>The statements of the program keep the primary key.\<close>

lemma primary_key_insert:
  "db_insert itemId itemType itemSrc itemAlt itemPoster fav itemDateGroup itemCategories table = Inr table1
   \<Longrightarrow> primary_key table \<Longrightarrow> primary_key table1"
  by (auto simp: db_insert_def primary_key_def split: option.splits if_splits)

lemma primary_key_update:
  "primary_key table \<Longrightarrow> primary_key (db_update_isFavorite fav itemId table)"
  by (simp add: primary_key_def row_id_update)

lemma primary_key_delete:
  "primary_key table \<Longrightarrow> primary_key (snd (db_delete itemId table))"
  by (simp add: primary_key_def db_delete_def distinct_map_filter)

section \<open>The favorite operation\<close>

lemma Boolean_newFavoriteStatus: "Boolean (newFavoriteStatus v) = (\<not> Boolean v)"
  by (simp add: Boolean_def newFavoriteStatus_def)

lemma put_favorite_absent:
  "db_get table itemId = None \<Longrightarrow>
   put_favorite itemId table = ((404, ErrorBody (js ''Item not found'')), table)"
  by (simp add: put_favorite_def)

lemma put_favorite_present:
  "db_get table itemId = Some r \<Longrightarrow>
   put_favorite itemId table =
     ((200, FavoriteBody (js ''Favorite status updated'') itemId (\<not> Boolean (row_isFavorite r))),
      db_update_isFavorite (newFavoriteStatus (row_isFavorite r)) itemId table)"
  by (simp add: put_favorite_def Boolean_newFavoriteStatus)

text \<open>
  Claim C5. For an id that is in the table the favorite operation answers 200 and
  inverts the flag of that row: the boolean it reports and the boolean of the value
  it stores are the negation of the boolean of the value stored before, the row with
  the new value is what a lookup of the id now returns, every other id looks up as
  before, and a second application answers the flag the row started with and stores
  a value with that boolean. For an id that is not in the table it answers 404 and
  leaves the table as it was.
\<close>

theorem put_favorite_toggles:
  "(db_get table itemId = None \<longrightarrow>
      put_favorite itemId table = ((404, ErrorBody (js ''Item not found'')), table))
   \<and> (\<forall>r. db_get table itemId = Some r \<longrightarrow>
        (\<exists>table1 table2.
           put_favorite itemId table =
             ((200, FavoriteBody (js ''Favorite status updated'') itemId (\<not> Boolean (row_isFavorite r))),
              table1)
           \<and> db_get table1 itemId = Some (r\<lparr>row_isFavorite := newFavoriteStatus (row_isFavorite r)\<rparr>)
           \<and> Boolean (newFavoriteStatus (row_isFavorite r)) = (\<not> Boolean (row_isFavorite r))
           \<and> (\<forall>j. j \<noteq> itemId \<longrightarrow> db_get table1 j = db_get table j)
           \<and> map row_id table1 = map row_id table
           \<and> put_favorite itemId table1 =
               ((200, FavoriteBody (js ''Favorite status updated'') itemId (Boolean (row_isFavorite r))),
                table2)
           \<and> (\<exists>r2. db_get table2 itemId = Some r2
                 \<and> Boolean (row_isFavorite r2) = Boolean (row_isFavorite r))))"
proof (intro conjI allI impI)
  assume "db_get table itemId = None"
  then show "put_favorite itemId table = ((404, ErrorBody (js ''Item not found'')), table)"
    by (rule put_favorite_absent)
next
  fix r
  assume present: "db_get table itemId = Some r"
  define v where "v = newFavoriteStatus (row_isFavorite r)"
  define table1 where "table1 = db_update_isFavorite v itemId table"
  define r1 where "r1 = r\<lparr>row_isFavorite := v\<rparr>"
  define table2 where "table2 = db_update_isFavorite (newFavoriteStatus v) itemId table1"
  have first: "put_favorite itemId table =
      ((200, FavoriteBody (js ''Favorite status updated'') itemId (\<not> Boolean (row_isFavorite r))), table1)"
    using put_favorite_present [OF present] by (simp add: table1_def v_def)
  have get1: "db_get table1 itemId = Some r1"
    unfolding table1_def r1_def by (rule db_get_update_same [OF present])
  have flip: "Boolean v = (\<not> Boolean (row_isFavorite r))"
    unfolding v_def by (rule Boolean_newFavoriteStatus)
  have others: "\<forall>j. j \<noteq> itemId \<longrightarrow> db_get table1 j = db_get table j"
    unfolding table1_def by (simp add: db_get_update_other)
  have ids: "map row_id table1 = map row_id table"
    unfolding table1_def by (rule row_id_update)
  have second: "put_favorite itemId table1 =
      ((200, FavoriteBody (js ''Favorite status updated'') itemId (Boolean (row_isFavorite r))), table2)"
    using put_favorite_present [OF get1] flip by (simp add: table2_def r1_def)
  have get2: "db_get table2 itemId = Some (r1\<lparr>row_isFavorite := newFavoriteStatus v\<rparr>)"
    unfolding table2_def by (rule db_get_update_same [OF get1])
  have restored: "Boolean (newFavoriteStatus v) = Boolean (row_isFavorite r)"
    using flip by (simp add: Boolean_newFavoriteStatus)
  show "\<exists>table1 table2.
           put_favorite itemId table =
             ((200, FavoriteBody (js ''Favorite status updated'') itemId (\<not> Boolean (row_isFavorite r))),
              table1)
           \<and> db_get table1 itemId = Some (r\<lparr>row_isFavorite := newFavoriteStatus (row_isFavorite r)\<rparr>)
           \<and> Boolean (newFavoriteStatus (row_isFavorite r)) = (\<not> Boolean (row_isFavorite r))
           \<and> (\<forall>j. j \<noteq> itemId \<longrightarrow> db_get table1 j = db_get table j)
           \<and> map row_id table1 = map row_id table
           \<and> put_favorite itemId table1 =
               ((200, FavoriteBody (js ''Favorite status updated'') itemId (Boolean (row_isFavorite r))),
                table2)
           \<and> (\<exists>r2. db_get table2 itemId = Some r2
                 \<and> Boolean (row_isFavorite r2) = Boolean (row_isFavorite r))"
    apply (rule exI [of _ table1], rule exI [of _ table2])
    using first get1 flip others ids second get2 restored
    by (simp add: r1_def v_def)
qed

theorem put_favorite_toggles_witness:
  "db_get [sample_row ''a'' 0 ''May 1, 2025'', sample_row ''b'' 1 ''May 1, 2025''] (js ''a'')
     = Some (sample_row ''a'' 0 ''May 1, 2025'')
   \<and> fst (put_favorite (js ''a'') [sample_row ''a'' 0 ''May 1, 2025'', sample_row ''b'' 1 ''May 1, 2025''])
     = (200, FavoriteBody (js ''Favorite status updated'') (js ''a'') True)
   \<and> db_get [sample_row ''a'' 0 ''May 1, 2025'', sample_row ''b'' 1 ''May 1, 2025''] (js ''c'') = None
   \<and> put_favorite (js ''c'') [sample_row ''a'' 0 ''May 1, 2025'', sample_row ''b'' 1 ''May 1, 2025'']
     = ((404, ErrorBody (js ''Item not found'')),
        [sample_row ''a'' 0 ''May 1, 2025'', sample_row ''b'' 1 ''May 1, 2025''])"
proof -
  let ?t = "[sample_row ''a'' 0 ''May 1, 2025'', sample_row ''b'' 1 ''May 1, 2025'']"
  have present: "db_get ?t (js ''a'') = Some (sample_row ''a'' 0 ''May 1, 2025'')"
    by (simp add: db_get_def sample_row_def)
  have absent: "db_get ?t (js ''c'') = None"
    by (simp add: db_get_def sample_row_def js_def)
  have flag: "Boolean (row_isFavorite (sample_row ''a'' 0 ''May 1, 2025'')) = False"
    by (simp add: sample_row_def Boolean_def)
  from put_favorite_toggles [of ?t "js ''a''", THEN conjunct2, rule_format, OF present]
  obtain table1 where "put_favorite (js ''a'') ?t =
      ((200, FavoriteBody (js ''Favorite status updated'') (js ''a'')
              (\<not> Boolean (row_isFavorite (sample_row ''a'' 0 ''May 1, 2025'')))), table1)"
    by blast
  then have "fst (put_favorite (js ''a'') ?t) = (200, FavoriteBody (js ''Favorite status updated'') (js ''a'') True)"
    using flag by simp
  moreover from put_favorite_toggles [of ?t "js ''c''", THEN conjunct1, rule_format, OF absent]
  have "put_favorite (js ''c'') ?t = ((404, ErrorBody (js ''Item not found'')), ?t)" .
  ultimately show ?thesis
    using present absent by simp
qed

text \<open>
  Claim C10. Whatever integer the flag holds, the value the favorite operation
  writes is 1 when the flag is 0 and 0 otherwise, so it is one of 0 and 1; that value
  is written to every row of the id, so after the operation the flag of the id is 0
  or 1.
\<close>

theorem favorite_writes_zero_or_one:
  "newFavoriteStatus v = (if v = 0 then 1 else 0) \<and> newFavoriteStatus v \<in> {0, 1}
   \<and> (\<forall>r. db_get table itemId = Some r \<longrightarrow>
          snd (put_favorite itemId table)
            = db_update_isFavorite (newFavoriteStatus (row_isFavorite r)) itemId table
          \<and> (\<forall>x \<in> set (snd (put_favorite itemId table)).
                row_id x = itemId \<longrightarrow>
                  row_isFavorite x = newFavoriteStatus (row_isFavorite r)
                  \<and> row_isFavorite x \<in> {0, 1}))"
proof (intro conjI allI impI)
  show "newFavoriteStatus v = (if v = 0 then 1 else 0)"
    by (simp add: newFavoriteStatus_def)
  show "newFavoriteStatus v \<in> {0, 1}"
    by (simp add: newFavoriteStatus_def)
next
  fix r
  assume present: "db_get table itemId = Some r"
  show written: "snd (put_favorite itemId table)
      = db_update_isFavorite (newFavoriteStatus (row_isFavorite r)) itemId table"
    by (simp add: put_favorite_present [OF present])
  show "\<forall>x \<in> set (snd (put_favorite itemId table)).
          row_id x = itemId \<longrightarrow>
            row_isFavorite x = newFavoriteStatus (row_isFavorite r) \<and> row_isFavorite x \<in> {0, 1}"
  proof (intro ballI impI)
    fix x
    assume "x \<in> set (snd (put_favorite itemId table))" and "row_id x = itemId"
    then have "row_isFavorite x = newFavoriteStatus (row_isFavorite r)"
      unfolding written by (rule db_update_written)
    then show "row_isFavorite x = newFavoriteStatus (row_isFavorite r) \<and> row_isFavorite x \<in> {0, 1}"
      by (simp add: newFavoriteStatus_def)
  qed
qed

theorem favorite_writes_zero_or_one_witness:
  "db_get [sample_row ''a'' 7 ''May 1, 2025''] (js ''a'') = Some (sample_row ''a'' 7 ''May 1, 2025'')
   \<and> newFavoriteStatus 7 = 0
   \<and> snd (put_favorite (js ''a'') [sample_row ''a'' 7 ''May 1, 2025'']) = [sample_row ''a'' 0 ''May 1, 2025'']"
proof -
  have present: "db_get [sample_row ''a'' 7 ''May 1, 2025''] (js ''a'') = Some (sample_row ''a'' 7 ''May 1, 2025'')"
    by (simp add: db_get_def sample_row_def)
  have "row_isFavorite (sample_row ''a'' 7 ''May 1, 2025'') = 7"
    by (simp add: sample_row_def)
  note inst = favorite_writes_zero_or_one [of 7 "[sample_row ''a'' 7 ''May 1, 2025'']" "js ''a''"]
  have "newFavoriteStatus 7 = 0"
    using inst [THEN conjunct1] by simp
  moreover have "snd (put_favorite (js ''a'') [sample_row ''a'' 7 ''May 1, 2025''])
          = db_update_isFavorite (newFavoriteStatus 7) (js ''a'') [sample_row ''a'' 7 ''May 1, 2025'']"
    using inst [THEN conjunct2, THEN conjunct2, rule_format, OF present, THEN conjunct1]
      \<open>row_isFavorite (sample_row ''a'' 7 ''May 1, 2025'') = 7\<close> by simp
  ultimately have "newFavoriteStatus 7 = 0"
    and "snd (put_favorite (js ''a'') [sample_row ''a'' 7 ''May 1, 2025''])
          = db_update_isFavorite 0 (js ''a'') [sample_row ''a'' 7 ''May 1, 2025'']"
    by simp_all
  then show ?thesis
    using present by (simp add: db_update_isFavorite_def sample_row_def)
qed

section \<open>Upload\<close>

text \<open>
  Claim C6. An upload request with no file is answered 400 with the message
  \<open>No file uploaded.\<close>, and the table is left as it was.
\<close>

theorem upload_without_file:
  "req_file req = None \<Longrightarrow>
   post_gallery number_text now suffix req table = ((400, ErrorBody (js ''No file uploaded.'')), table)"
  by (simp add: post_gallery_def)

theorem upload_without_file_witness:
  "req_file \<lparr>req_file = None, body_alt = Some (js ''a cat''), body_categories = Some (js ''[]''),
             body_dateGroup = Some (js ''May 1, 2025'')\<rparr> = None
   \<and> post_gallery lexeme_text 1746057600000 (js ''k3j5x9q'')
        \<lparr>req_file = None, body_alt = Some (js ''a cat''), body_categories = Some (js ''[]''),
         body_dateGroup = Some (js ''May 1, 2025'')\<rparr>
        [sample_row ''a'' 0 ''May 1, 2025'']
     = ((400, ErrorBody (js ''No file uploaded.'')), [sample_row ''a'' 0 ''May 1, 2025''])"
proof -
  have h: "req_file \<lparr>req_file = None, body_alt = Some (js ''a cat''), body_categories = Some (js ''[]''),
             body_dateGroup = Some (js ''May 1, 2025'')\<rparr> = None"
    by simp
  show ?thesis
    using h upload_without_file [OF h, of lexeme_text 1746057600000 "js ''k3j5x9q''" "[sample_row ''a'' 0 ''May 1, 2025'']"]
    by simp
qed

section \<open>Delete\<close>

lemma delete_gallery_absent:
  "db_get table X = None \<Longrightarrow>
   delete_gallery X table = ((404, ErrorBody (js ''Item not found'')), table, None)"
  by (simp add: delete_gallery_def)

lemma delete_gallery_present:
  assumes "db_get table X = Some r"
  shows "delete_gallery X table =
     ((200, DeleteBody (js ''Item deleted successfully'') X), filter (\<lambda>x. row_id x \<noteq> X) table,
      if startsWith (row_src r) (js ''/uploads/'') then Some (row_src r) else None)"
proof -
  have "r \<in> set table" and "row_id r = X"
    using db_get_Some_id [OF assms] by simp_all
  then have "filter (\<lambda>x. row_id x = X) table \<noteq> []"
    by (auto simp: filter_empty_conv)
  then show ?thesis
    using assms by (simp add: delete_gallery_def db_delete_def)
qed

text \<open>
  Claim C9. Deleting an id that is not in the table answers 404 and changes nothing.
  Deleting an id that is in the table answers 200 with that id and leaves the table
  without the rows of that id: a lookup of the id then finds nothing, a second delete
  of it answers 404 and changes nothing, every other id looks up as before, and
  under the primary key the table lost exactly the one row that was found.
\<close>

theorem delete_then_not_found:
  "(db_get table X = None \<longrightarrow>
      delete_gallery X table = ((404, ErrorBody (js ''Item not found'')), table, None))
   \<and> (\<forall>r. db_get table X = Some r \<longrightarrow>
        (\<exists>table1 unlinked.
           delete_gallery X table = ((200, DeleteBody (js ''Item deleted successfully'') X), table1, unlinked)
           \<and> table1 = filter (\<lambda>x. row_id x \<noteq> X) table
           \<and> db_get table1 X = None
           \<and> delete_gallery X table1 = ((404, ErrorBody (js ''Item not found'')), table1, None)
           \<and> (\<forall>j. j \<noteq> X \<longrightarrow> db_get table1 j = db_get table j)
           \<and> (primary_key table \<longrightarrow> mset table = add_mset r (mset table1))))"
proof (intro conjI allI impI)
  assume "db_get table X = None"
  then show "delete_gallery X table = ((404, ErrorBody (js ''Item not found'')), table, None)"
    by (rule delete_gallery_absent)
next
  fix r
  assume present: "db_get table X = Some r"
  define table1 where "table1 = filter (\<lambda>x. row_id x \<noteq> X) table"
  have gone: "db_get table1 X = None"
    unfolding table1_def by (rule db_get_filter_same)
  have exactly: "mset table = add_mset r (mset table1)" if "primary_key table"
  proof -
    have "r \<in> set table" and "row_id r = X"
      using db_get_Some_id [OF present] by simp_all
    then have one: "filter (\<lambda>x. row_id x = X) table = [r]"
      using filter_id_distinct [of table r] that by (simp add: primary_key_def)
    have "mset (filter (\<lambda>x. row_id x = X) table) + mset (filter (\<lambda>x. row_id x \<noteq> X) table)
            = mset table"
      by (induction table) auto
    then show ?thesis
      unfolding one table1_def by simp
  qed
  show "\<exists>table1 unlinked.
           delete_gallery X table = ((200, DeleteBody (js ''Item deleted successfully'') X), table1, unlinked)
           \<and> table1 = filter (\<lambda>x. row_id x \<noteq> X) table
           \<and> db_get table1 X = None
           \<and> delete_gallery X table1 = ((404, ErrorBody (js ''Item not found'')), table1, None)
           \<and> (\<forall>j. j \<noteq> X \<longrightarrow> db_get table1 j = db_get table j)
           \<and> (primary_key table \<longrightarrow> mset table = add_mset r (mset table1))"
  proof (intro exI conjI allI impI)
    show "delete_gallery X table =
        ((200, DeleteBody (js ''Item deleted successfully'') X), table1,
         if startsWith (row_src r) (js ''/uploads/'') then Some (row_src r) else None)"
      using delete_gallery_present [OF present] by (simp add: table1_def)
    show "table1 = filter (\<lambda>x. row_id x \<noteq> X) table"
      by (rule table1_def)
    show "db_get table1 X = None"
      by (rule gone)
    show "delete_gallery X table1 = ((404, ErrorBody (js ''Item not found'')), table1, None)"
      by (rule delete_gallery_absent [OF gone])
    show "db_get table1 j = db_get table j" if "j \<noteq> X" for j
      using that by (simp add: table1_def db_get_filter_other)
    show "mset table = add_mset r (mset table1)" if "primary_key table"
      by (rule exactly [OF that])
  qed
qed

theorem delete_then_not_found_witness:
  "db_get [sample_row ''a'' 0 ''May 1, 2025'', sample_row ''b'' 1 ''May 1, 2025''] (js ''a'')
     = Some (sample_row ''a'' 0 ''May 1, 2025'')
   \<and> primary_key [sample_row ''a'' 0 ''May 1, 2025'', sample_row ''b'' 1 ''May 1, 2025'']
   \<and> fst (delete_gallery (js ''a'') [sample_row ''a'' 0 ''May 1, 2025'', sample_row ''b'' 1 ''May 1, 2025''])
     = (200, DeleteBody (js ''Item deleted successfully'') (js ''a''))
   \<and> fst (snd (delete_gallery (js ''a'') [sample_row ''a'' 0 ''May 1, 2025'', sample_row ''b'' 1 ''May 1, 2025'']))
     = [sample_row ''b'' 1 ''May 1, 2025'']
   \<and> db_get [sample_row ''b'' 1 ''May 1, 2025''] (js ''a'') = None
   \<and> delete_gallery (js ''a'') [sample_row ''b'' 1 ''May 1, 2025'']
     = ((404, ErrorBody (js ''Item not found'')), [sample_row ''b'' 1 ''May 1, 2025''], None)"
proof -
  let ?t = "[sample_row ''a'' 0 ''May 1, 2025'', sample_row ''b'' 1 ''May 1, 2025'']"
  have present: "db_get ?t (js ''a'') = Some (sample_row ''a'' 0 ''May 1, 2025'')"
    by (simp add: db_get_def sample_row_def)
  have key: "primary_key ?t"
    by (simp add: primary_key_def sample_row_def js_def)
  have left: "filter (\<lambda>x. row_id x \<noteq> js ''a'') ?t = [sample_row ''b'' 1 ''May 1, 2025'']"
    by (simp add: sample_row_def js_def)
  have absent: "db_get [sample_row ''b'' 1 ''May 1, 2025''] (js ''a'') = None"
    by (simp add: db_get_def sample_row_def js_def)
  from delete_then_not_found [of ?t "js ''a''", THEN conjunct2, rule_format, OF present]
  obtain table1 unlinked where
    "delete_gallery (js ''a'') ?t = ((200, DeleteBody (js ''Item deleted successfully'') (js ''a'')), table1, unlinked)"
    and "table1 = filter (\<lambda>x. row_id x \<noteq> js ''a'') ?t"
    by blast
  then have "fst (delete_gallery (js ''a'') ?t) = (200, DeleteBody (js ''Item deleted successfully'') (js ''a''))"
    and "fst (snd (delete_gallery (js ''a'') ?t)) = [sample_row ''b'' 1 ''May 1, 2025'']"
    using left by simp_all
  moreover from delete_then_not_found [of "[sample_row ''b'' 1 ''May 1, 2025'']" "js ''a''", THEN conjunct1, rule_format, OF absent]
  have "delete_gallery (js ''a'') [sample_row ''b'' 1 ''May 1, 2025'']
     = ((404, ErrorBody (js ''Item not found'')), [sample_row ''b'' 1 ''May 1, 2025''], None)" .
  ultimately show ?thesis
    using present key absent by simp
qed

section \<open>Seeding\<close>

lemma insert_mock_items_rows:
  "distinct (map mock_id ms) \<Longrightarrow> set (map mock_id ms) \<inter> set (map row_id table) = {} \<Longrightarrow>
   insert_mock_items number_text ms table = Inr (table @ map (seeded_row number_text) ms)"
proof (induction ms arbitrary: table)
  case Nil
  then show ?case by simp
next
  case (Cons m ms)
  have fresh: "mock_id m \<notin> set (map row_id table)"
    using Cons.prems(2) by auto
  then have step: "insert_mock_item number_text m table = Inr (table @ [seeded_row number_text m])"
    by (simp add: insert_mock_item_def db_insert_def seeded_row_def)
  have "set (map mock_id ms) \<inter> set (map row_id (table @ [seeded_row number_text m])) = {}"
    using Cons.prems by (auto simp: seeded_row_def)
  then have "insert_mock_items number_text ms (table @ [seeded_row number_text m])
      = Inr ((table @ [seeded_row number_text m]) @ map (seeded_row number_text) ms)"
    using Cons.IH Cons.prems(1) by simp
  then show ?case
    using step by simp
qed

lemma distinct_mock_ids: "distinct (map mock_id initialMockGalleryItems)"
  by (simp add: initialMockGalleryItems_def js_def)

lemma length_initialMockGalleryItems: "length initialMockGalleryItems = 16"
  by (simp add: initialMockGalleryItems_def)

lemma initializeDatabase_empty:
  "initializeDatabase number_text [] = Inr (map (seeded_row number_text) initialMockGalleryItems)"
  using insert_mock_items_rows [OF distinct_mock_ids, of "[]" number_text]
  by (simp add: initializeDatabase_def isTableEmpty_def)

lemma primary_key_seeded:
  "primary_key (map (seeded_row number_text) initialMockGalleryItems)"
proof -
  have "map row_id (map (seeded_row number_text) initialMockGalleryItems)
      = map mock_id initialMockGalleryItems"
    by (simp add: seeded_row_def comp_def)
  then show ?thesis
    unfolding primary_key_def using distinct_mock_ids by (simp only:)
qed

lemma initializeDatabase_nonempty:
  "table \<noteq> [] \<Longrightarrow> initializeDatabase number_text table = Inr table"
  by (simp add: initializeDatabase_def isTableEmpty_def)

text \<open>
  Claim C8. On a table that has a row \<open>initializeDatabase\<close> inserts nothing and
  leaves the table as it is. On the empty table it succeeds and leaves one row per
  item of the seed list, with the ids of the list in order; run again on that table
  it leaves it unchanged, so the number of rows after the second run is the number
  after the first.
\<close>

theorem initialize_seeds_once:
  "(table \<noteq> [] \<longrightarrow> initializeDatabase number_text table = Inr table)
   \<and> (\<exists>seeded.
         initializeDatabase number_text [] = Inr seeded
         \<and> length seeded = length initialMockGalleryItems
         \<and> map row_id seeded = map mock_id initialMockGalleryItems
         \<and> initializeDatabase number_text seeded = Inr seeded)"
proof (intro conjI impI)
  assume "table \<noteq> []"
  then show "initializeDatabase number_text table = Inr table"
    by (rule initializeDatabase_nonempty)
next
  let ?seeded = "map (seeded_row number_text) initialMockGalleryItems"
  have "?seeded \<noteq> []"
    using length_initialMockGalleryItems by auto
  then have "initializeDatabase number_text ?seeded = Inr ?seeded"
    by (rule initializeDatabase_nonempty)
  moreover have "map row_id ?seeded = map mock_id initialMockGalleryItems"
    by (simp add: seeded_row_def comp_def)
  ultimately show "\<exists>seeded.
         initializeDatabase number_text [] = Inr seeded
         \<and> length seeded = length initialMockGalleryItems
         \<and> map row_id seeded = map mock_id initialMockGalleryItems
         \<and> initializeDatabase number_text seeded = Inr seeded"
    using initializeDatabase_empty [of number_text] by (intro exI [of _ ?seeded]) simp
qed

theorem initialize_seeds_once_witness:
  "[sample_row ''a'' 0 ''May 1, 2025''] \<noteq> []
   \<and> initializeDatabase lexeme_text [sample_row ''a'' 0 ''May 1, 2025''] = Inr [sample_row ''a'' 0 ''May 1, 2025'']"
  using initialize_seeds_once [of "[sample_row ''a'' 0 ''May 1, 2025'']" lexeme_text] by simp

lemma processedItem_seeded: "processedItem (seeded_row number_text m) = Inr (seeded_item m)"
proof -
  have "or_else (row_categories (seeded_row number_text m)) (js ''[]'')
      = JSON_stringify number_text (JArray (map JString (mock_categories m)))"
    using stringify_strings_not_Nil [of number_text "mock_categories m"]
    by (simp add: or_else_def seeded_row_def del: JSON_stringify.simps)
  then show ?thesis
    by (simp add: processedItem_def JSON_parse_stringify_strings seeded_row_def seeded_item_def
          del: JSON_stringify.simps)
qed

lemma processedItems_seeded:
  "processedItems (map (seeded_row number_text) ms) = Inr (map seeded_item ms)"
  by (induction ms) (simp_all add: processedItem_seeded)

text \<open>
  Claim C1, as the code has it. \<open>initializeDatabase\<close> on the empty table leaves the
  rows of the seed list, and listing them (the \<open>SELECT\<close> of line 71 and the map of
  lines 74 to 78 of \<open>app.js\<close>) returns the items of the seed list: 16 records, the
  list of lines 54 to 72 of \<open>db.js\<close> having sixteen items and not seventeen, among
  them the record with id \<open>img-001\<close>, type \<open>image\<close> and categories \<open>library\<close>,
  \<open>nature\<close>, \<open>landscape\<close>.
\<close>

theorem initialize_then_list:
  "initializeDatabase number_text [] = Inr (map (seeded_row number_text) initialMockGalleryItems)
   \<and> processedItems (map (seeded_row number_text) initialMockGalleryItems)
       = Inr (map seeded_item initialMockGalleryItems)
   \<and> length (map seeded_item initialMockGalleryItems) = 16
   \<and> \<lparr>item_id = js ''img-001'', item_type = js ''image'',
       src = js ''/source/Pics/identity_veeshna_01.jpg'', alt = Some (js ''identity_veeshna_01.jpg''),
       poster = None, isFavorite = False, dateGroup = js ''May 1, 2025'',
       categories = JArray [JString (js ''library''), JString (js ''nature''), JString (js ''landscape'')]\<rparr>
     \<in> set (map seeded_item initialMockGalleryItems)"
proof (intro conjI)
  show "initializeDatabase number_text [] = Inr (map (seeded_row number_text) initialMockGalleryItems)"
    by (rule initializeDatabase_empty)
  show "processedItems (map (seeded_row number_text) initialMockGalleryItems)
       = Inr (map seeded_item initialMockGalleryItems)"
    by (rule processedItems_seeded)
  show "length (map seeded_item initialMockGalleryItems) = 16"
    by (simp add: length_initialMockGalleryItems)
  have "hd (map seeded_item initialMockGalleryItems) \<in> set (map seeded_item initialMockGalleryItems)"
    by (rule hd_in_set) (simp add: initialMockGalleryItems_def)
  then show "\<lparr>item_id = js ''img-001'', item_type = js ''image'',
       src = js ''/source/Pics/identity_veeshna_01.jpg'', alt = Some (js ''identity_veeshna_01.jpg''),
       poster = None, isFavorite = False, dateGroup = js ''May 1, 2025'',
       categories = JArray [JString (js ''library''), JString (js ''nature''), JString (js ''landscape'')]\<rparr>
     \<in> set (map seeded_item initialMockGalleryItems)"
    by (simp add: initialMockGalleryItems_def seeded_item_def or_null_def Boolean_def)
qed

text \<open>The count the claim states, 17, is not the count of the records listed.\<close>

theorem seventeen_records_counterexample:
  "initializeDatabase lexeme_text [] = Inr (map (seeded_row lexeme_text) initialMockGalleryItems)
   \<and> processedItems (map (seeded_row lexeme_text) initialMockGalleryItems)
       = Inr (map seeded_item initialMockGalleryItems)
   \<and> length (map seeded_item initialMockGalleryItems) \<noteq> 17"
  by (simp add: initializeDatabase_empty processedItems_seeded length_initialMockGalleryItems)

section \<open>The record of an upload\<close>

lemma image_not_video: "js ''image'' \<noteq> js ''video''"
  by (simp add: js_def)

lemma parsedCategories_alt:
  "parsedCategories field =
     (case field of
        None \<Rightarrow> JArray []
      | Some c \<Rightarrow> (case JSON_parse c of None \<Rightarrow> JArray [] | Some v \<Rightarrow> v))"
  by (simp add: parsedCategories_def JSON_parse_Nil split: option.splits)

text \<open>
  Claim C7. When an upload is answered 201, the request had a file and a
  \<open>dateGroup\<close> field, and the record in the response has type \<open>image\<close> exactly when
  the MIME type of the file starts with \<open>image/\<close> and \<open>video\<close> otherwise, poster
  \<open>null\<close>, \<open>isFavorite\<close> false, \<open>alt\<close> the field when it is present and not empty
  and the original file name otherwise, and categories the value \<open>JSON.parse\<close> gives
  the \<open>categories\<close> field, or the empty array when the field is absent or does not
  parse; the table gained one row with these values, \<open>isFavorite\<close> 0 and the
  categories as \<open>JSON.stringify\<close> writes them. An upload with a file, a \<open>dateGroup\<close>
  and an id that is not in the table is answered 201 whatever the \<open>categories\<close>
  field holds.
\<close>

theorem upload_record:
  "(\<forall>body table1.
      post_gallery number_text now suffix req table = ((201, body), table1) \<longrightarrow>
      (\<exists>f dg n.
         req_file req = Some f \<and> body_dateGroup req = Some dg \<and> body = NewItemBody n
         \<and> new_type n = (if startsWith (mimetype f) (js ''image/'') then js ''image'' else js ''video'')
         \<and> (new_type n = js ''image'') = startsWith (mimetype f) (js ''image/'')
         \<and> new_poster n = None
         \<and> new_isFavorite n = False
         \<and> new_alt n = (case body_alt req of
                          None \<Rightarrow> originalname f
                        | Some a \<Rightarrow> if a = [] then originalname f else a)
         \<and> new_categories n = (case body_categories req of
                                 None \<Rightarrow> JArray []
                               | Some c \<Rightarrow> (case JSON_parse c of None \<Rightarrow> JArray [] | Some v \<Rightarrow> v))
         \<and> new_dateGroup n = Some dg
         \<and> table1 = table @
              [\<lparr>row_id = new_id n, row_type = new_type n, row_src = new_src n,
                row_alt = Some (new_alt n), row_poster = None, row_isFavorite = 0,
                row_dateGroup = dg,
                row_categories = Some (JSON_stringify number_text (new_categories n))\<rparr>]))
   \<and> (\<forall>f dg.
         req_file req = Some f \<longrightarrow> body_dateGroup req = Some dg \<longrightarrow>
         js ''uploaded-'' @ decimal now @ js ''-'' @ suffix \<notin> set (map row_id table) \<longrightarrow>
         fst (fst (post_gallery number_text now suffix req table)) = 201)"
proof (intro conjI allI impI)
  fix body table1
  assume ok: "post_gallery number_text now suffix req table = ((201, body), table1)"
  then obtain f where f: "req_file req = Some f"
    by (cases "req_file req") (simp_all add: post_gallery_def)
  define itemId where "itemId = js ''uploaded-'' @ decimal now @ js ''-'' @ suffix"
  define itemType where
    "itemType = (if startsWith (mimetype f) (js ''image/'') then js ''image'' else js ''video'')"
  define itemAlt where "itemAlt = or_else (body_alt req) (originalname f)"
  define cats where "cats = parsedCategories (body_categories req)"
  from ok f obtain dg where dg: "body_dateGroup req = Some dg"
    by (cases "body_dateGroup req") (simp_all add: post_gallery_def db_insert_def Let_def)
  from ok f dg have fresh: "itemId \<notin> set (map row_id table)"
    by (auto simp: post_gallery_def db_insert_def Let_def itemId_def split: if_splits)
  define n where
    "n = \<lparr>new_id = itemId, new_type = itemType, new_src = js ''/uploads/'' @ filename f,
          new_alt = itemAlt, new_poster = None, new_isFavorite = False,
          new_dateGroup = Some dg, new_categories = cats\<rparr>"
  from ok f dg fresh have body: "body = NewItemBody n"
    and table1: "table1 = table @
        [\<lparr>row_id = itemId, row_type = itemType, row_src = js ''/uploads/'' @ filename f,
          row_alt = Some itemAlt, row_poster = None, row_isFavorite = 0, row_dateGroup = dg,
          row_categories = Some (JSON_stringify number_text cats)\<rparr>]"
    by (simp_all add: post_gallery_def db_insert_def Let_def itemId_def itemType_def itemAlt_def
          cats_def n_def)
  have type_iff: "(itemType = js ''image'') = startsWith (mimetype f) (js ''image/'')"
    using image_not_video by (auto simp: itemType_def)
  have alt_eq: "itemAlt = (case body_alt req of
                          None \<Rightarrow> originalname f
                        | Some a \<Rightarrow> if a = [] then originalname f else a)"
    by (simp add: itemAlt_def or_else_def)
  have cats_eq: "cats = (case body_categories req of
                                 None \<Rightarrow> JArray []
                               | Some c \<Rightarrow> (case JSON_parse c of None \<Rightarrow> JArray [] | Some v \<Rightarrow> v))"
    unfolding cats_def by (rule parsedCategories_alt)
  show "\<exists>f dg n.
         req_file req = Some f \<and> body_dateGroup req = Some dg \<and> body = NewItemBody n
         \<and> new_type n = (if startsWith (mimetype f) (js ''image/'') then js ''image'' else js ''video'')
         \<and> (new_type n = js ''image'') = startsWith (mimetype f) (js ''image/'')
         \<and> new_poster n = None
         \<and> new_isFavorite n = False
         \<and> new_alt n = (case body_alt req of
                          None \<Rightarrow> originalname f
                        | Some a \<Rightarrow> if a = [] then originalname f else a)
         \<and> new_categories n = (case body_categories req of
                                 None \<Rightarrow> JArray []
                               | Some c \<Rightarrow> (case JSON_parse c of None \<Rightarrow> JArray [] | Some v \<Rightarrow> v))
         \<and> new_dateGroup n = Some dg
         \<and> table1 = table @
              [\<lparr>row_id = new_id n, row_type = new_type n, row_src = new_src n,
                row_alt = Some (new_alt n), row_poster = None, row_isFavorite = 0,
                row_dateGroup = dg,
                row_categories = Some (JSON_stringify number_text (new_categories n))\<rparr>]"
  proof (intro exI conjI)
    show "req_file req = Some f" by (rule f)
    show "body_dateGroup req = Some dg" by (rule dg)
    show "body = NewItemBody n" by (rule body)
    show "new_type n = (if startsWith (mimetype f) (js ''image/'') then js ''image'' else js ''video'')"
      by (simp add: n_def itemType_def)
    show "(new_type n = js ''image'') = startsWith (mimetype f) (js ''image/'')"
      using type_iff by (simp add: n_def)
    show "new_poster n = None" by (simp add: n_def)
    show "new_isFavorite n = False" by (simp add: n_def)
    show "new_alt n = (case body_alt req of
                          None \<Rightarrow> originalname f
                        | Some a \<Rightarrow> if a = [] then originalname f else a)"
      using alt_eq by (simp add: n_def)
    show "new_categories n = (case body_categories req of
                                 None \<Rightarrow> JArray []
                               | Some c \<Rightarrow> (case JSON_parse c of None \<Rightarrow> JArray [] | Some v \<Rightarrow> v))"
      using cats_eq by (simp add: n_def)
    show "new_dateGroup n = Some dg" by (simp add: n_def)
    show "table1 = table @
              [\<lparr>row_id = new_id n, row_type = new_type n, row_src = new_src n,
                row_alt = Some (new_alt n), row_poster = None, row_isFavorite = 0,
                row_dateGroup = dg,
                row_categories = Some (JSON_stringify number_text (new_categories n))\<rparr>]"
      using table1 by (simp add: n_def)
  qed
next
  fix f dg
  assume "req_file req = Some f" and "body_dateGroup req = Some dg"
    and "js ''uploaded-'' @ decimal now @ js ''-'' @ suffix \<notin> set (map row_id table)"
  then show "fst (fst (post_gallery number_text now suffix req table)) = 201"
    by (simp add: post_gallery_def db_insert_def Let_def)
qed

lemma decimal_sample: "decimal 1746057600000 = js ''1746057600000''"
  by (simp add: decimal.simps js_def)

theorem upload_record_witness:
  "fst (fst (post_gallery lexeme_text 1746057600000 (js ''k3j5x9q'')
               (sample_request ''image/png'' ''library,pets'') [])) = 201
   \<and> JSON_parse (js ''library,pets'') = None
   \<and> (\<exists>n. snd (fst (post_gallery lexeme_text 1746057600000 (js ''k3j5x9q'')
                       (sample_request ''image/png'' ''library,pets'') [])) = NewItemBody n
          \<and> new_type n = js ''image'' \<and> new_alt n = js ''cat.png'' \<and> new_categories n = JArray [])"
proof -
  let ?req = "sample_request ''image/png'' ''library,pets''"
  let ?out = "post_gallery lexeme_text 1746057600000 (js ''k3j5x9q'') ?req []"
  have the_file: "req_file ?req = Some \<lparr>originalname = js ''cat.png'', mimetype = js ''image/png'',
                        filename = js ''1746057600000-cat.png''\<rparr>"
    and label: "body_dateGroup ?req = Some (js ''May 1, 2025'')"
    and fields: "body_alt ?req = None" "body_categories ?req = Some (js ''library,pets'')"
    by (simp_all add: sample_request_def)
  have fresh: "js ''uploaded-'' @ decimal 1746057600000 @ js ''-'' @ js ''k3j5x9q'' \<notin> set (map row_id [])"
    by simp
  have status: "fst (fst ?out) = 201"
    using upload_record [of lexeme_text 1746057600000 "js ''k3j5x9q''" ?req "[]", THEN conjunct2,
        rule_format, OF the_file label fresh] .
  have unparsed: "JSON_parse (js ''library,pets'') = None"
    by (simp add: JSON_parse_def json_value.simps js_def skip_ws_def is_ws_def number_def
          number_unsigned_def number_int_def digits_def is_digit_def)
  have prefix: "startsWith (js ''image/png'') (js ''image/'')"
    by (simp add: startsWith_def js_def)
  obtain body table1 where out: "?out = ((201, body), table1)"
    using status by (cases ?out) auto
  from upload_record [of lexeme_text 1746057600000 "js ''k3j5x9q''" ?req "[]", THEN conjunct1,
        rule_format, OF out]
  obtain f n where f: "req_file ?req = Some f" and facts: "body = NewItemBody n"
    "new_type n = (if startsWith (mimetype f) (js ''image/'') then js ''image'' else js ''video'')"
    "new_alt n = (case body_alt ?req of
                          None \<Rightarrow> originalname f
                        | Some a \<Rightarrow> if a = [] then originalname f else a)"
    "new_categories n = (case body_categories ?req of
                                 None \<Rightarrow> JArray []
                               | Some c \<Rightarrow> (case JSON_parse c of None \<Rightarrow> JArray [] | Some v \<Rightarrow> v))"
    by blast
  have f_eq: "f = \<lparr>originalname = js ''cat.png'', mimetype = js ''image/png'',
                        filename = js ''1746057600000-cat.png''\<rparr>"
    using f the_file by simp
  have "body = NewItemBody n \<and> new_type n = js ''image'' \<and> new_alt n = js ''cat.png''
      \<and> new_categories n = JArray []"
    using facts fields unparsed prefix by (simp add: f_eq)
  then show ?thesis
    using status unparsed out by auto
qed

section \<open>Grouping\<close>

text \<open>
  What the loop of lines 82 to 91 keeps true of \<open>groupedData\<close> and the items it has
  taken so far: the keys are the labels of those items, each once, and the group of a
  label carries the label and the items of that label in their order.
\<close>

definition grouped :: "(jsstring \<times> gallery_group) list \<Rightarrow> item list \<Rightarrow> bool" where
  "grouped groupedData processed =
     (distinct (map fst groupedData)
      \<and> set (map fst groupedData) = set (map dateGroup processed)
      \<and> (\<forall>label g. map_of groupedData label = Some g \<longrightarrow>
             group_id g = label \<and> date g = label
             \<and> items g = filter (\<lambda>i. dateGroup i = label) processed))"

lemma map_of_CreateDataProperty:
  "map_of (CreateDataProperty props k v) = (map_of props)(k \<mapsto> v)"
  by (induction props) (auto simp: fun_eq_iff)

lemma keys_CreateDataProperty:
  "map fst (CreateDataProperty props k v)
     = (if k \<in> set (map fst props) then map fst props else map fst props @ [k])"
  by (induction props) (fastforce simp: image_iff)+

lemma Get_Own: "map_of props k = Some v \<Longrightarrow> Get props k = Own v"
  by (simp add: Get_def)

lemma Get_Undefined:
  "map_of props k = None \<Longrightarrow> k \<notin> set Object_prototype_keys \<Longrightarrow> Get props k = Undefined"
  by (simp add: Get_def)

lemma Get_Inherited:
  "map_of props k = None \<Longrightarrow> k \<in> set Object_prototype_keys \<Longrightarrow> Get props k = Inherited"
  by (simp add: Get_def)

lemma group_item_new:
  assumes "map_of groupedData (dateGroup i) = None" and "dateGroup i \<notin> set Object_prototype_keys"
  shows "group_item groupedData i =
     Inr (CreateDataProperty
            (CreateDataProperty groupedData (dateGroup i)
               \<lparr>group_id = dateGroup i, date = dateGroup i, items = []\<rparr>)
            (dateGroup i) \<lparr>group_id = dateGroup i, date = dateGroup i, items = [i]\<rparr>)"
  using assms
  by (simp add: group_item_def Get_Undefined Get_Own map_of_CreateDataProperty)

lemma group_item_old:
  assumes "map_of groupedData (dateGroup i) = Some g"
  shows "group_item groupedData i =
     Inr (CreateDataProperty groupedData (dateGroup i) (g\<lparr>items := items g @ [i]\<rparr>))"
  using assms by (simp add: group_item_def Get_Own)

lemma group_item_inherited:
  assumes "map_of groupedData (dateGroup i) = None" and "dateGroup i \<in> set Object_prototype_keys"
  shows "group_item groupedData i = Inl TypeError"
  using assms by (simp add: group_item_def Get_Inherited)

lemma group_item_grouped:
  assumes "grouped groupedData processed" and "dateGroup i \<notin> set Object_prototype_keys"
  shows "\<exists>groupedData'. group_item groupedData i = Inr groupedData'
           \<and> grouped groupedData' (processed @ [i])"
proof (cases "map_of groupedData (dateGroup i)")
  case None
  let ?l = "dateGroup i"
  let ?new = "CreateDataProperty
            (CreateDataProperty groupedData ?l \<lparr>group_id = ?l, date = ?l, items = []\<rparr>)
            ?l \<lparr>group_id = ?l, date = ?l, items = [i]\<rparr>"
  have notin: "?l \<notin> set (map fst groupedData)"
    using None by (simp add: map_of_eq_None_iff)
  have "set (map fst groupedData) = set (map dateGroup processed)"
    using assms(1) by (simp add: grouped_def)
  with notin have "?l \<notin> set (map dateGroup processed)"
    by simp
  then have nolabel: "filter (\<lambda>j. dateGroup j = ?l) processed = []"
    by (auto simp: filter_empty_conv image_iff)
  have keys: "map fst ?new = map fst groupedData @ [?l]"
    using notin by (simp add: keys_CreateDataProperty)
  have lookup: "map_of ?new = (map_of groupedData)(?l \<mapsto> \<lparr>group_id = ?l, date = ?l, items = [i]\<rparr>)"
    by (simp add: map_of_CreateDataProperty)
  have k1: "distinct (map fst ?new)"
    using assms(1) notin unfolding keys by (simp add: grouped_def)
  have k2: "set (map fst ?new) = set (map dateGroup (processed @ [i]))"
    using assms(1) unfolding keys by (auto simp: grouped_def)
  have k3: "group_id g = label \<and> date g = label
      \<and> items g = filter (\<lambda>j. dateGroup j = label) (processed @ [i])"
    if "map_of ?new label = Some g" for label g
  proof -
    from that consider "label = ?l" "g = \<lparr>group_id = ?l, date = ?l, items = [i]\<rparr>"
      | "label \<noteq> ?l" "map_of groupedData label = Some g"
      unfolding lookup by (auto split: if_splits)
    then show ?thesis
    proof cases
      case 1
      then show ?thesis using nolabel by simp
    next
      case 2
      then show ?thesis using assms(1) by (auto simp: grouped_def)
    qed
  qed
  have "grouped ?new (processed @ [i])"
    unfolding grouped_def using k1 k2 k3 by blast
  then show ?thesis
    using group_item_new [OF None assms(2)] by simp
next
  case (Some g)
  let ?l = "dateGroup i"
  let ?new = "CreateDataProperty groupedData ?l (g\<lparr>items := items g @ [i]\<rparr>)"
  have isin: "?l \<in> set (map fst groupedData)"
    using Some by (metis map_of_eq_None_iff option.distinct(1) set_map)
  have keys: "map fst ?new = map fst groupedData"
    using isin by (simp add: keys_CreateDataProperty)
  have lookup: "map_of ?new = (map_of groupedData)(?l \<mapsto> g\<lparr>items := items g @ [i]\<rparr>)"
    by (simp add: map_of_CreateDataProperty)
  have g: "group_id g = ?l" "date g = ?l" "items g = filter (\<lambda>j. dateGroup j = ?l) processed"
    using assms(1) Some by (auto simp: grouped_def)
  have k1: "distinct (map fst ?new)"
    using assms(1) unfolding keys by (simp add: grouped_def)
  have k2: "set (map fst ?new) = set (map dateGroup (processed @ [i]))"
    using assms(1) isin unfolding keys by (auto simp: grouped_def)
  have k3: "group_id h = label \<and> date h = label
      \<and> items h = filter (\<lambda>j. dateGroup j = label) (processed @ [i])"
    if "map_of ?new label = Some h" for label h
  proof -
    from that consider "label = ?l" "h = g\<lparr>items := items g @ [i]\<rparr>"
      | "label \<noteq> ?l" "map_of groupedData label = Some h"
      unfolding lookup by (auto split: if_splits)
    then show ?thesis
    proof cases
      case 1
      then show ?thesis using g by simp
    next
      case 2
      then show ?thesis using assms(1) by (auto simp: grouped_def)
    qed
  qed
  have "grouped ?new (processed @ [i])"
    unfolding grouped_def using k1 k2 k3 by blast
  then show ?thesis
    using group_item_old [OF Some] by simp
qed

lemma group_items_grouped:
  assumes "grouped groupedData done" and "set (map dateGroup rest) \<inter> set Object_prototype_keys = {}"
  shows "\<exists>groupedData'. group_items groupedData rest = Inr groupedData'
           \<and> grouped groupedData' (done @ rest)"
  using assms
proof (induction rest arbitrary: groupedData "done")
  case Nil
  then show ?case by simp
next
  case (Cons i rest)
  have "dateGroup i \<notin> set Object_prototype_keys"
    using Cons.prems(2) by auto
  from group_item_grouped [OF Cons.prems(1) this]
  obtain gd1 where step: "group_item groupedData i = Inr gd1" and inv: "grouped gd1 (done @ [i])"
    by blast
  have "set (map dateGroup rest) \<inter> set Object_prototype_keys = {}"
    using Cons.prems(2) by auto
  from Cons.IH [OF inv this]
  obtain gd2 where "group_items gd1 rest = Inr gd2" and "grouped gd2 ((done @ [i]) @ rest)"
    by blast
  then show ?case
    using step by simp
qed

lemma grouped_Nil: "grouped [] []"
  by (simp add: grouped_def)

lemma group_items_from_empty:
  assumes "set (map dateGroup processed) \<inter> set Object_prototype_keys = {}"
  shows "\<exists>groupedData. group_items [] processed = Inr groupedData \<and> grouped groupedData processed"
  using group_items_grouped [OF grouped_Nil assms] by simp

lemma mset_OwnPropertyKeysOrder: "mset (OwnPropertyKeysOrder props) = mset props"
proof -
  have "mset (filter (\<lambda>(k, v). is_array_index k) props) + mset (filter (\<lambda>(k, v). \<not> is_array_index k) props)
      = mset props"
    by (induction props) auto
  then show ?thesis
    by (simp add: OwnPropertyKeysOrder_def)
qed

lemma mset_sort_insert: "mset (sort_insert comparefn x ys) = add_mset x (mset ys)"
  by (induction ys) simp_all

lemma mset_Array_sort: "mset (Array_sort comparefn xs) = mset xs"
  by (induction xs) (simp_all add: mset_sort_insert)

lemma set_Array_sort: "set (Array_sort comparefn xs) = set xs"
  using mset_Array_sort [of comparefn xs] by (metis set_mset_mset)

lemma Array_sort_all_equal:
  "(\<forall>x \<in> set xs. \<forall>y \<in> set xs. SortCompare comparefn x y = 0) \<Longrightarrow> Array_sort comparefn xs = xs"
proof (induction xs)
  case Nil
  then show ?case by simp
next
  case (Cons x xs)
  then have "Array_sort comparefn xs = xs"
    by simp
  then show ?case
    using Cons.prems by (cases xs) simp_all
qed

lemma sort_insert_sorted:
  assumes "sorted_wrt (\<lambda>a b. key b \<le> key a) ys"
    and "\<forall>y \<in> set ys. (SortCompare comparefn x y \<le> 0) = (key y \<le> (key x :: int))"
  shows "sorted_wrt (\<lambda>a b. key b \<le> key a) (sort_insert comparefn x ys)"
  using assms
proof (induction ys)
  case Nil
  then show ?case by simp
next
  case (Cons y ys)
  show ?case
  proof (cases "SortCompare comparefn x y \<le> 0")
    case True
    then have "key y \<le> key x"
      using Cons.prems(2) by simp
    then show ?thesis
      using True Cons.prems(1) by auto
  next
    case False
    then have "key x \<le> key y"
      using Cons.prems(2) by auto
    moreover have "sorted_wrt (\<lambda>a b. key b \<le> key a) (sort_insert comparefn x ys)"
      using Cons by simp
    moreover have "set (sort_insert comparefn x ys) = insert x (set ys)"
      using mset_sort_insert [of comparefn x ys] by (metis set_mset_add_mset_insert set_mset_mset)
    ultimately show ?thesis
      using False Cons.prems(1) by auto
  qed
qed

lemma Array_sort_sorted:
  assumes "\<forall>x \<in> set xs. \<forall>y \<in> set xs. (SortCompare comparefn x y \<le> 0) = (key y \<le> (key x :: int))"
  shows "sorted_wrt (\<lambda>a b. key b \<le> key a) (Array_sort comparefn xs)"
  using assms
proof (induction xs)
  case Nil
  then show ?case by simp
next
  case (Cons x xs)
  have "sorted_wrt (\<lambda>a b. key b \<le> key a) (Array_sort comparefn xs)"
    using Cons by simp
  moreover have "\<forall>y \<in> set (Array_sort comparefn xs). (SortCompare comparefn x y \<le> 0) = (key y \<le> key x)"
    using Cons.prems by (simp add: set_Array_sort)
  ultimately show ?case
    by (simp add: sort_insert_sorted)
qed

lemma SortCompare_dates:
  assumes "Date_parse (date a) = Some ta" and "Date_parse (date b) = Some tb"
  shows "SortCompare (compare_dates Date_parse) a b = tb - ta"
  using assms by (simp add: SortCompare_def compare_dates_def)

lemma SortCompare_invalid:
  assumes "Date_parse (date a) = None \<or> Date_parse (date b) = None"
  shows "SortCompare (compare_dates Date_parse) a b = 0"
  using assms by (auto simp: SortCompare_def compare_dates_def split: option.splits)

lemma grouped_values:
  assumes "grouped groupedData processed"
  shows "mset (map date (Object_values groupedData)) = mset (map fst groupedData)"
    and "\<forall>g \<in> set (Object_values groupedData).
           group_id g = date g \<and> items g = filter (\<lambda>i. dateGroup i = date g) processed"
proof -
  have d: "distinct (map fst groupedData)"
    using assms by (simp add: grouped_def)
  have each: "group_id g = l \<and> date g = l \<and> items g = filter (\<lambda>i. dateGroup i = l) processed"
    if "(l, g) \<in> set groupedData" for l g
  proof -
    have "map_of groupedData l = Some g"
      using that d by simp
    then show ?thesis
      using assms by (simp add: grouped_def)
  qed
  have "map (date \<circ> snd) groupedData = map fst groupedData"
    using each by (intro map_cong) auto
  moreover have "mset (Object_values groupedData) = mset (map snd groupedData)"
    by (simp add: Object_values_def mset_OwnPropertyKeysOrder)
  ultimately show "mset (map date (Object_values groupedData)) = mset (map fst groupedData)"
    by (metis mset_map map_map)
  show "\<forall>g \<in> set (Object_values groupedData).
           group_id g = date g \<and> items g = filter (\<lambda>i. dateGroup i = date g) processed"
  proof
    fix g
    assume "g \<in> set (Object_values groupedData)"
    then obtain l where "(l, g) \<in> set groupedData"
      by (auto simp: Object_values_def set_OwnPropertyKeysOrder)
    from each [OF this] show "group_id g = date g \<and> items g = filter (\<lambda>i. dateGroup i = date g) processed"
      by simp
  qed
qed

lemmas grouping_eval =
  sortedGroupedData_def group_item_def Get_def Object_prototype_keys_def Object_values_def
  OwnPropertyKeysOrder_def is_array_index_def array_index_def is_digit_def compare_dates_def
  SortCompare_def seed_dates_def sample_item_def sample_group_def js_def

lemma processedItem_sample:
  "processedItem (sample_row i fav label) = Inr (sample_item i fav label)"
proof -
  have "or_else (row_categories (sample_row i fav label)) (js ''[]'') = js ''[]''"
    by (simp add: sample_row_def or_else_def)
  then show ?thesis
    by (simp add: processedItem_def JSON_parse_empty_array sample_row_def sample_item_def)
qed

text \<open>
  Claim C4, as the code has it. For every list of items none of whose labels names a
  property every object inherits (what happens there is claim C3's), whether the
  labels parse as dates or not, the transformer throws nothing and the handler
  answers 200: the result has one group per distinct label, each with the items of
  its label in input order, and it is a rearrangement of the groups as
  \<open>Object.values\<close> lists them. A group whose label does not parse is not moved below
  the others: the comparison of its label with any label is NaN, which the sort reads
  as equal, and when no two labels of the input parse to different dates the result
  is exactly the list \<open>Object.values\<close> gives.
\<close>

theorem groups_whatever_labels_parse:
  assumes "set (map dateGroup processed) \<inter> set Object_prototype_keys = {}"
  shows "\<exists>groupedData groups.
      group_items [] processed = Inr groupedData
      \<and> sortedGroupedData Date_parse processed = Inr groups
      \<and> (\<forall>table. processedItems table = Inr processed \<longrightarrow>
             get_gallery Date_parse table = (200, GalleryBody groups))
      \<and> mset groups = mset (Object_values groupedData)
      \<and> distinct (map date groups)
      \<and> set (map date groups) = set (map dateGroup processed)
      \<and> (\<forall>g \<in> set groups.
             group_id g = date g \<and> items g = filter (\<lambda>i. dateGroup i = date g) processed)
      \<and> ((\<forall>a \<in> set processed. \<forall>b \<in> set processed.
              Date_parse (dateGroup a) = None \<or> Date_parse (dateGroup b) = None
              \<or> Date_parse (dateGroup a) = Date_parse (dateGroup b))
           \<longrightarrow> groups = Object_values groupedData)"
proof -
  from group_items_from_empty [OF assms]
  obtain groupedData where gd: "group_items [] processed = Inr groupedData"
    and inv: "grouped groupedData processed"
    by blast
  define groups where "groups = Array_sort (compare_dates Date_parse) (Object_values groupedData)"
  have sorted: "sortedGroupedData Date_parse processed = Inr groups"
    by (simp add: sortedGroupedData_def gd groups_def)
  have handler: "get_gallery Date_parse table = (200, GalleryBody groups)"
    if "processedItems table = Inr processed" for table
    using that sorted by (simp add: get_gallery_def)
  have perm: "mset groups = mset (Object_values groupedData)"
    by (simp add: groups_def mset_Array_sort)
  have labels: "mset (map date groups) = mset (map fst groupedData)"
    using grouped_values(1) [OF inv] perm by (metis mset_map)
  have keys: "distinct (map fst groupedData)" "set (map fst groupedData) = set (map dateGroup processed)"
    using inv by (simp_all add: grouped_def)
  have one_each: "distinct (map date groups)"
    using labels keys(1) by (metis mset_eq_imp_distinct_iff)
  have all_labels: "set (map date groups) = set (map dateGroup processed)"
    using labels keys(2) by (metis set_mset_mset)
  have members: "\<forall>g \<in> set groups.
             group_id g = date g \<and> items g = filter (\<lambda>i. dateGroup i = date g) processed"
    using grouped_values(2) [OF inv] perm by (metis set_mset_mset)
  have unmoved: "groups = Object_values groupedData"
    if same: "\<forall>a \<in> set processed. \<forall>b \<in> set processed.
              Date_parse (dateGroup a) = None \<or> Date_parse (dateGroup b) = None
              \<or> Date_parse (dateGroup a) = Date_parse (dateGroup b)"
  proof -
    have lab: "\<exists>i \<in> set processed. dateGroup i = date g" if "g \<in> set (Object_values groupedData)" for g
    proof -
      have "date g \<in> set (map date (Object_values groupedData))"
        using that by simp
      then have "date g \<in> set (map fst groupedData)"
        using grouped_values(1) [OF inv] by (metis set_mset_mset)
      then show ?thesis
        using keys(2) by auto
    qed
    have "SortCompare (compare_dates Date_parse) x y = 0"
      if xin: "x \<in> set (Object_values groupedData)" and yin: "y \<in> set (Object_values groupedData)" for x y
    proof -
      obtain a b where "a \<in> set processed" "dateGroup a = date x" "b \<in> set processed" "dateGroup b = date y"
        using lab [OF xin] lab [OF yin] by blast
      with same have "Date_parse (date x) = None \<or> Date_parse (date y) = None
          \<or> Date_parse (date x) = Date_parse (date y)"
        by metis
      then show ?thesis
        by (auto simp: SortCompare_def compare_dates_def split: option.splits)
    qed
    then show ?thesis
      unfolding groups_def by (intro Array_sort_all_equal) blast
  qed
  show ?thesis
    using gd sorted handler perm one_each all_labels members unmoved by blast
qed

theorem groups_whatever_labels_parse_witness:
  "set (map dateGroup [sample_item ''a'' 0 ''Undated'', sample_item ''b'' 0 ''someday'',
                       sample_item ''c'' 1 ''Undated'']) \<inter> set Object_prototype_keys = {}
   \<and> seed_dates (js ''Undated'') = None
   \<and> seed_dates (js ''someday'') = None
   \<and> sortedGroupedData seed_dates
        [sample_item ''a'' 0 ''Undated'', sample_item ''b'' 0 ''someday'', sample_item ''c'' 1 ''Undated'']
       = Inr [sample_group ''Undated'' [sample_item ''a'' 0 ''Undated'', sample_item ''c'' 1 ''Undated''],
              sample_group ''someday'' [sample_item ''b'' 0 ''someday'']]"
proof -
  let ?items = "[sample_item ''a'' 0 ''Undated'', sample_item ''b'' 0 ''someday'', sample_item ''c'' 1 ''Undated'']"
  let ?gd = "[(js ''Undated'', sample_group ''Undated'' [sample_item ''a'' 0 ''Undated'', sample_item ''c'' 1 ''Undated'']),
              (js ''someday'', sample_group ''someday'' [sample_item ''b'' 0 ''someday''])]"
  have own: "set (map dateGroup ?items) \<inter> set Object_prototype_keys = {}"
    by (simp add: sample_item_def Object_prototype_keys_def js_def)
  have u: "seed_dates (js ''Undated'') = None" and s: "seed_dates (js ''someday'') = None"
    by (simp_all add: seed_dates_def js_def)
  have nan: "\<forall>a \<in> set ?items. \<forall>b \<in> set ?items.
      seed_dates (dateGroup a) = None \<or> seed_dates (dateGroup b) = None
      \<or> seed_dates (dateGroup a) = seed_dates (dateGroup b)"
    using u s by (simp add: sample_item_def)
  have grouping: "group_items [] ?items = Inr ?gd"
    by (simp add: group_item_def Get_def Object_prototype_keys_def sample_item_def sample_group_def js_def)
  have order: "Object_values ?gd =
      [sample_group ''Undated'' [sample_item ''a'' 0 ''Undated'', sample_item ''c'' 1 ''Undated''],
       sample_group ''someday'' [sample_item ''b'' 0 ''someday'']]"
    by (simp add: Object_values_def OwnPropertyKeysOrder_def is_array_index_def is_digit_def js_def)
  from groups_whatever_labels_parse [OF own, of seed_dates]
  obtain groupedData groups where "group_items [] ?items = Inr groupedData"
    and "sortedGroupedData seed_dates ?items = Inr groups"
    and "(\<forall>a \<in> set ?items. \<forall>b \<in> set ?items.
              seed_dates (dateGroup a) = None \<or> seed_dates (dateGroup b) = None
              \<or> seed_dates (dateGroup a) = seed_dates (dateGroup b))
           \<longrightarrow> groups = Object_values groupedData"
    by blast
  then have "sortedGroupedData seed_dates ?items = Inr (Object_values ?gd)"
    using nan grouping by simp
  then show ?thesis
    using own u s order by simp
qed

text \<open>
  The claim as stated fails on two items, the first labelled \<open>Undated\<close> and the second
  \<open>May 1, 2025\<close>: the comparator gives NaN on every pair, the stable sort leaves the
  groups as they were, and the group whose label does not parse comes first.
\<close>

theorem unparseable_label_first_counterexample:
  "seed_dates (js ''Undated'') = None
   \<and> seed_dates (js ''May 1, 2025'') = Some 1746057600000
   \<and> sortedGroupedData seed_dates [sample_item ''a'' 0 ''Undated'', sample_item ''b'' 0 ''May 1, 2025'']
       = Inr [sample_group ''Undated'' [sample_item ''a'' 0 ''Undated''],
              sample_group ''May 1, 2025'' [sample_item ''b'' 0 ''May 1, 2025'']]"
  by (simp add: grouping_eval)

text \<open>
  With a label that does not parse between two that do, the groups that parse are
  not in date order either (here as Node's engine sorts them too).
\<close>

lemma stray_label_between_dates:
  "sortedGroupedData seed_dates
     [sample_item ''a'' 0 ''April 15, 2025'', sample_item ''b'' 0 ''Undated'',
      sample_item ''c'' 0 ''May 1, 2025'']
   = Inr [sample_group ''April 15, 2025'' [sample_item ''a'' 0 ''April 15, 2025''],
          sample_group ''Undated'' [sample_item ''b'' 0 ''Undated''],
          sample_group ''May 1, 2025'' [sample_item ''c'' 0 ''May 1, 2025'']]"
  by (simp add: grouping_eval)

text \<open>
  Where every label parses, and none names an inherited property, the groups are
  in descending order of their dates.
\<close>

lemma groups_sorted_when_labels_parse:
  assumes "set (map dateGroup processed) \<inter> set Object_prototype_keys = {}"
    and "\<forall>i \<in> set processed. Date_parse (dateGroup i) \<noteq> None"
  shows "\<exists>groups.
      sortedGroupedData Date_parse processed = Inr groups
      \<and> sorted_wrt (\<lambda>g h. the (Date_parse (date h)) \<le> the (Date_parse (date g))) groups"
proof -
  from group_items_from_empty [OF assms(1)]
  obtain groupedData where gd: "group_items [] processed = Inr groupedData"
    and inv: "grouped groupedData processed"
    by blast
  have parses: "Date_parse (date g) \<noteq> None" if "g \<in> set (Object_values groupedData)" for g
  proof -
    have "date g \<in> set (map date (Object_values groupedData))"
      using that by simp
    then have "date g \<in> set (map fst groupedData)"
      using grouped_values(1) [OF inv] by (metis set_mset_mset)
    then have "date g \<in> set (map dateGroup processed)"
      using inv by (simp add: grouped_def)
    then show ?thesis
      using assms(2) by auto
  qed
  have "(SortCompare (compare_dates Date_parse) x y \<le> 0)
      = (the (Date_parse (date y)) \<le> the (Date_parse (date x)))"
    if "x \<in> set (Object_values groupedData)" and "y \<in> set (Object_values groupedData)" for x y
    using parses [OF that(1)] parses [OF that(2)] by (auto simp: SortCompare_dates)
  then have "sorted_wrt (\<lambda>g h. the (Date_parse (date h)) \<le> the (Date_parse (date g)))
      (Array_sort (compare_dates Date_parse) (Object_values groupedData))"
    by (intro Array_sort_sorted) blast
  then show ?thesis
    by (simp add: sortedGroupedData_def gd)
qed

lemma may_before_april:
  "sortedGroupedData seed_dates
     [sample_item ''a'' 0 ''April 15, 2025'', sample_item ''b'' 1 ''May 1, 2025'',
      sample_item ''c'' 0 ''April 15, 2025'']
   = Inr [sample_group ''May 1, 2025'' [sample_item ''b'' 1 ''May 1, 2025''],
          sample_group ''April 15, 2025''
            [sample_item ''a'' 0 ''April 15, 2025'', sample_item ''c'' 0 ''April 15, 2025'']]"
  by (simp add: grouping_eval)

lemma seed_groups_order:
  "map_sum (\<lambda>e. e) (map date) (sortedGroupedData seed_dates (map seeded_item initialMockGalleryItems))
     = Inr [js ''May 1, 2025'', js ''April 15, 2025'', js ''March 5, 2025'', js ''January 20, 2025'']"
  by (simp add: initialMockGalleryItems_def seeded_item_def or_null_def Boolean_def
        sortedGroupedData_def group_item_def Get_def Object_prototype_keys_def Object_values_def
        OwnPropertyKeysOrder_def is_array_index_def array_index_def is_digit_def compare_dates_def
        SortCompare_def seed_dates_def js_def)

text \<open>
  An item whose label names an inherited property, anywhere in the list, makes the
  loop throw: no key of \<open>groupedData\<close> is ever such a name, so the lookup of the
  label finds the inherited value.
\<close>

lemma group_item_keys:
  assumes "group_item groupedData i = Inr groupedData1"
  shows "set (map fst groupedData1) \<subseteq> insert (dateGroup i) (set (map fst groupedData))"
proof (cases "map_of groupedData (dateGroup i)")
  case None
  show ?thesis
  proof (cases "dateGroup i \<in> set Object_prototype_keys")
    case True
    then show ?thesis
      using assms group_item_inherited [OF None] by simp
  next
    case False
    from group_item_new [OF None False] assms
    have "groupedData1 = CreateDataProperty
            (CreateDataProperty groupedData (dateGroup i)
               \<lparr>group_id = dateGroup i, date = dateGroup i, items = []\<rparr>)
            (dateGroup i) \<lparr>group_id = dateGroup i, date = dateGroup i, items = [i]\<rparr>"
      by simp
    then show ?thesis
      by (auto simp: keys_CreateDataProperty split: if_splits)
  qed
next
  case (Some g)
  from group_item_old [OF Some] assms
  have "groupedData1 = CreateDataProperty groupedData (dateGroup i) (g\<lparr>items := items g @ [i]\<rparr>)"
    by simp
  then show ?thesis
    by (auto simp: keys_CreateDataProperty split: if_splits)
qed

lemma group_items_inherited:
  assumes "set (map fst groupedData) \<inter> set Object_prototype_keys = {}"
    and "\<exists>i \<in> set rest. dateGroup i \<in> set Object_prototype_keys"
  shows "group_items groupedData rest = Inl TypeError"
  using assms
proof (induction rest arbitrary: groupedData)
  case Nil
  then show ?case by simp
next
  case (Cons j rest)
  show ?case
  proof (cases "dateGroup j \<in> set Object_prototype_keys")
    case True
    then have "map_of groupedData (dateGroup j) = None"
      using Cons.prems(1) by (auto simp: map_of_eq_None_iff)
    then show ?thesis
      using group_item_inherited True by simp
  next
    case False
    then have later: "\<exists>i \<in> set rest. dateGroup i \<in> set Object_prototype_keys"
      using Cons.prems(2) by auto
    obtain groupedData1 where step: "group_item groupedData j = Inr groupedData1"
    proof (cases "map_of groupedData (dateGroup j)")
      case None
      then show ?thesis using group_item_new [OF None False] that by blast
    next
      case (Some g)
      then show ?thesis using group_item_old [OF Some] that by blast
    qed
    have "set (map fst groupedData1) \<inter> set Object_prototype_keys = {}"
      using group_item_keys [OF step] Cons.prems(1) False by blast
    then have "group_items groupedData1 rest = Inl TypeError"
      using Cons.IH later by simp
    then show ?thesis
      using step by simp
  qed
qed

lemma inherited_label_anywhere:
  assumes "i \<in> set processed" and "dateGroup i \<in> set Object_prototype_keys"
  shows "sortedGroupedData Date_parse processed = Inl TypeError"
proof -
  have "group_items [] processed = Inl TypeError"
    using assms by (intro group_items_inherited) auto
  then show ?thesis
    by (simp add: sortedGroupedData_def)
qed

text \<open>
  Claim C3 at the input where the code breaks it. A row whose \<open>dateGroup\<close> is
  \<open>constructor\<close> is listed as an item, and the loop throws a TypeError on it:
  \<open>groupedData["constructor"]\<close> is the function every object inherits, so no group is
  created and \<open>.items.push\<close> is called on \<open>undefined\<close>. The handler answers 500 and
  returns no group, whatever the date parser.
\<close>

theorem inherited_label_throws:
  "sortedGroupedData Date_parse [sample_item ''a'' 0 ''constructor''] = Inl TypeError
   \<and> processedItems [sample_row ''a'' 0 ''constructor''] = Inr [sample_item ''a'' 0 ''constructor'']
   \<and> get_gallery Date_parse [sample_row ''a'' 0 ''constructor'']
       = (500, ErrorBody (js ''Failed to fetch gallery items''))"
proof -
  have thrown: "sortedGroupedData Date_parse [sample_item ''a'' 0 ''constructor''] = Inl TypeError"
    by (simp add: sortedGroupedData_def group_item_def Get_def Object_prototype_keys_def
          sample_item_def js_def)
  have listed: "processedItems [sample_row ''a'' 0 ''constructor''] = Inr [sample_item ''a'' 0 ''constructor'']"
    by (simp add: processedItem_sample)
  show ?thesis
    using thrown listed by (simp add: get_gallery_def)
qed

text \<open>Such a row is what an upload with the form field \<open>dateGroup=constructor\<close> stores.\<close>

lemma upload_with_inherited_label:
  "post_gallery lexeme_text 1746057600000 (js ''k3j5x9q'')
     ((sample_request ''image/png'' ''[]'')\<lparr>body_dateGroup := Some (js ''constructor'')\<rparr>) []
   = ((201, NewItemBody
        \<lparr>new_id = js ''uploaded-1746057600000-k3j5x9q'', new_type = js ''image'',
         new_src = js ''/uploads/1746057600000-cat.png'', new_alt = js ''cat.png'',
         new_poster = None, new_isFavorite = False, new_dateGroup = Some (js ''constructor''),
         new_categories = JArray []\<rparr>),
      [\<lparr>row_id = js ''uploaded-1746057600000-k3j5x9q'', row_type = js ''image'',
        row_src = js ''/uploads/1746057600000-cat.png'', row_alt = Some (js ''cat.png''),
        row_poster = None, row_isFavorite = 0, row_dateGroup = js ''constructor'',
        row_categories = Some (js ''[]'')\<rparr>])"
proof -
  have cats: "parsedCategories (Some (js ''[]'')) = JArray []"
    by (simp add: parsedCategories_def JSON_parse_empty_array)
  have written: "JSON_stringify lexeme_text (JArray []) = js ''[]''"
    by (simp add: js_def)
  have prefix: "startsWith (js ''image/png'') (js ''image/'')"
    by (simp add: startsWith_def js_def)
  have ident: "js ''uploaded-'' @ decimal 1746057600000 @ js ''-'' @ js ''k3j5x9q''
      = js ''uploaded-1746057600000-k3j5x9q''"
    by (simp add: decimal_sample js_def)
  have path: "js ''/uploads/'' @ js ''1746057600000-cat.png'' = js ''/uploads/1746057600000-cat.png''"
    by (simp add: js_def)
  show ?thesis
    by (simp add: post_gallery_def sample_request_def db_insert_def or_else_def Let_def cats written prefix
          ident path del: JSON_stringify.simps)
qed

end
